theory Spec2Isabelle
  imports
    Complex_Main
    "HOL-Library.Multiset"
    "HOL-Library.List_Lexorder"
    "HOL-Library.Char_ord"
begin

section \<open>Beam analysis: the statics-and-integration solver\<close>

text \<open>
  A shallow embedding of \<^verbatim>\<open>src/civil/beam_analysis.py\<close>. Python floats and numpy
  float arrays are modelled as reals and lists of reals, and their arithmetic as exact:
  overflow, infinities and NaN are outside the model, and so is rounding wherever it only
  moves a computed value by a rounding error. Two places are modelled as the machine has
  them. The number of samples is \<^verbatim>\<open>int(length * 200) + 1\<close>, where rounding the
  product to a double decides an integer: there the product is the double-precision product
  of the doubles nearest to the operands. And the division of the moment array by a
  stiffness \<open>E * I = 0\<close>, which needs no rounding to be reached, has an outcome (a table
  with non-finite slope and deflection columns, and no exception) with a constructor of its
  own in the result type.
\<close>

subsection \<open>Data model\<close>

text \<open>
  A value stored in the \<^verbatim>\<open>properties\<close> dict, abstracted by what \<^verbatim>\<open>float(...)\<close>
  does to it: it converts to a number (a float, an int, a numeric string), or it raises
  \<^verbatim>\<open>ValueError\<close> or \<^verbatim>\<open>TypeError\<close> (a non-numeric string, \<^verbatim>\<open>None\<close>, a list).
\<close>

datatype pyval = PyNum real | PyNonNumeric

type_synonym properties = "string \<rightharpoonup> pyval"

text \<open>A support dict \<^verbatim>\<open>{'type': ..., 'position': ...}\<close>; the type is any string.\<close>

record support =
  stype :: string
  sposition :: real

text \<open>
  A load dict. \<open>Point magnitude position\<close> is \<^verbatim>\<open>{'type': 'point', ...}\<close>,
  \<open>Distributed magnitude start end\<close> is \<^verbatim>\<open>{'type': 'distributed', ...}\<close>, and
  \<open>OtherLoad\<close> is a dict whose \<^verbatim>\<open>'type'\<close> is neither: every loop of the source
  passes over it (an \<^verbatim>\<open>if\<close>/\<^verbatim>\<open>elif\<close> with no \<^verbatim>\<open>else\<close>).
\<close>

datatype load =
    Point real real
  | Distributed real real real
  | OtherLoad

text \<open>The messages of the six \<^verbatim>\<open>AnalysisError\<close>s the module raises.\<close>

datatype analysis_msg =
    InvalidBeamProperty
  | SupportsSamePosition
  | UnstableStructure
  | UnsupportedCombination "string list"
  | EIUndefined
  | DeflectionSupportsSamePosition

text \<open>
  The exceptions that leave \<^verbatim>\<open>solve_beam\<close>: its own \<^verbatim>\<open>AnalysisError\<close>, and the
  built-in exceptions of Python and numpy that it does not catch.
\<close>

datatype error =
    AnalysisError analysis_msg
  | ValueError
  | ZeroDivisionError
  | IndexError
  | StopIteration

text \<open>The returned \<^verbatim>\<open>pandas.DataFrame\<close>: five columns of equal length.\<close>

record dataframe =
  Position_m :: "real list"
  Shear_Force_N :: "real list"
  Bending_Moment_Nm :: "real list"
  Slope_rad :: "real list"
  Deflection_m :: "real list"

text \<open>
  What \<^verbatim>\<open>solve_beam\<close> returns: \<open>Finite df\<close> is a table of numbers;
  \<open>NonFinite x V M\<close> is the table numpy builds when \<open>E * I = 0\<close>: position, shear and
  moment columns as usual, and slope and deflection columns holding only \<^verbatim>\<open>inf\<close> and
  \<^verbatim>\<open>nan\<close>, which have no real value.
\<close>

datatype table =
    Finite dataframe
  | NonFinite "real list" "real list" "real list"

subsection \<open>Reaction solver\<close>

text \<open>
  \<^verbatim>\<open>next((s['position'] for s in supports if s['type'] == t), ...)\<close>: the position of
  the first support of type \<open>t\<close>, if any.
\<close>

fun next_position :: "string \<Rightarrow> support list \<Rightarrow> real option" where
  "next_position t [] = None"
| "next_position t (s # ss) = (if stype s = t then Some (sposition s) else next_position t ss)"

text \<open>
  The load loop of both reaction functions (lines 17-29 and 48-60): it carries
  \<^verbatim>\<open>total_force\<close> and the total moment about the reference support \<open>ref\<close>.
\<close>

fun load_step :: "real \<Rightarrow> load \<Rightarrow> real \<times> real \<Rightarrow> real \<times> real" where
  "load_step ref (Point mag pos) (total_force, total_moment) =
     (total_force + mag, total_moment + mag * (pos - ref))"
| "load_step ref (Distributed mag start end) (total_force, total_moment) =
     (let load_length = end - start;
          resultant_force = mag * load_length;
          resultant_position = start + load_length / 2
      in (total_force + resultant_force,
          total_moment + resultant_force * (resultant_position - ref)))"
| "load_step ref OtherLoad (total_force, total_moment) = (total_force, total_moment)"

fun load_loop :: "real \<Rightarrow> load list \<Rightarrow> real \<times> real \<Rightarrow> real \<times> real" where
  "load_loop ref [] acc = acc"
| "load_loop ref (l # ls) acc = load_loop ref ls (load_step ref l acc)"

text \<open>
  The reactions dict as the list of its items in insertion order, with the initial moment.
  (\<^verbatim>\<open>{pinned_pos: R_pin, roller_pos: R_roller}\<close> has two keys: equal positions raise
  before the dict is built.)
\<close>

type_synonym reactions = "(real \<times> real) list"

definition calculate_reactions_simply_supported ::
  "real \<Rightarrow> support list \<Rightarrow> load list \<Rightarrow> error + (reactions \<times> real)" where
  "calculate_reactions_simply_supported len supports loads =
     (let pinned_pos = (case next_position ''pinned'' supports of Some p \<Rightarrow> p | None \<Rightarrow> 0);
          roller_pos = (case next_position ''roller'' supports of Some r \<Rightarrow> r | None \<Rightarrow> len);
          (total_force, total_moment_about_pin) = load_loop pinned_pos loads (0, 0);
          effective_length = roller_pos - pinned_pos
      in if effective_length = 0 then Inl (AnalysisError SupportsSamePosition)
         else
           (let R_roller = - total_moment_about_pin / effective_length;
                R_pin = - total_force - R_roller
            in Inr ([(pinned_pos, R_pin), (roller_pos, R_roller)], 0)))"

definition calculate_reactions_cantilever ::
  "support list \<Rightarrow> load list \<Rightarrow> error + (reactions \<times> real)" where
  "calculate_reactions_cantilever supports loads =
     (case supports of
        [] \<Rightarrow> Inl IndexError
      | s # _ \<Rightarrow>
          (let fixed_pos = sposition s;
               (total_force, total_moment_about_fixed) = load_loop fixed_pos loads (0, 0);
               R_fixed_force = - total_force;
               M_fixed_reaction = - total_moment_about_fixed
           in Inr ([(fixed_pos, R_fixed_force)], M_fixed_reaction)))"

subsection \<open>Double-precision rounding\<close>

text \<open>Rounding to the nearest integer, ties to the even one.\<close>

definition rne :: "real \<Rightarrow> int" where
  "rne x =
     (let f = \<lfloor>x\<rfloor>; d = x - of_int f
      in if d < 1 / 2 then f
         else if 1 / 2 < d then f + 1
         else if even f then f else f + 1)"

text \<open>
  The binary exponent \<open>e\<close> of a positive number, \<open>2 ^ e \<le> x < 2 ^ (e + 1)\<close>: by halving
  from \<open>1\<close> upwards, by doubling below \<open>1\<close>.
\<close>

function exp_hi :: "real \<Rightarrow> int" where
  "exp_hi x = (if 2 \<le> x then exp_hi (x / 2) + 1 else 0)"
  by pat_completeness auto
termination
proof (relation "measure (\<lambda>x. nat \<lceil>x\<rceil>)")
  show "wf (measure (\<lambda>x. nat \<lceil>x\<rceil>))" by simp
next
  fix x :: real
  assume x: "2 \<le> x"
  then have "x / 2 \<le> x - 1" by simp
  then have "\<lceil>x / 2\<rceil> \<le> \<lceil>x - 1\<rceil>" by (rule ceiling_mono)
  also have "\<dots> = \<lceil>x\<rceil> - 1" by simp
  finally have "\<lceil>x / 2\<rceil> < \<lceil>x\<rceil>" by simp
  moreover from x have "0 < \<lceil>x\<rceil>" by linarith
  ultimately show "(x / 2, x) \<in> measure (\<lambda>x. nat \<lceil>x\<rceil>)" by simp
qed

function exp_lo :: "real \<Rightarrow> int" where
  "exp_lo x = (if 0 < x \<and> x < 1 then exp_lo (2 * x) - 1 else 0)"
  by pat_completeness auto
termination
proof (relation "measure (\<lambda>x. nat \<lceil>1 / x\<rceil>)")
  show "wf (measure (\<lambda>x. nat \<lceil>1 / x\<rceil>))" by simp
next
  fix x :: real
  assume x: "0 < x \<and> x < 1"
  then have one: "1 < 1 / x" by simp
  have "\<lceil>1 / (2 * x)\<rceil> < \<lceil>1 / x\<rceil>"
  proof (cases "2 \<le> 1 / x")
    case True
    then have "1 / x / 2 \<le> 1 / x - 1" by simp
    then have "\<lceil>1 / x / 2\<rceil> \<le> \<lceil>1 / x - 1\<rceil>" by (rule ceiling_mono)
    also have "\<dots> = \<lceil>1 / x\<rceil> - 1" by simp
    finally show ?thesis by (simp add: field_simps)
  next
    case False
    with one have "1 / (2 * x) \<le> 1" by (simp add: field_simps)
    then have "\<lceil>1 / (2 * x)\<rceil> \<le> 1" by (simp add: ceiling_le_one)
    moreover from one have "1 < \<lceil>1 / x\<rceil>" by linarith
    ultimately show ?thesis by linarith
  qed
  moreover from one have "0 < \<lceil>1 / x\<rceil>" by linarith
  ultimately show "(2 * x, x) \<in> measure (\<lambda>x. nat \<lceil>1 / x\<rceil>)" by simp
qed

declare exp_hi.simps [simp del] exp_lo.simps [simp del]

definition pow2 :: "int \<Rightarrow> real" where
  "pow2 e = (if 0 \<le> e then 2 ^ nat e else 1 / 2 ^ nat (- e))"

text \<open>
  The exponent of a double: that of the number, and \<open>- 1022\<close> for the subnormal ones.
\<close>

definition double_exponent :: "real \<Rightarrow> int" where
  "double_exponent x = max (- 1022) (if 1 \<le> \<bar>x\<bar> then exp_hi \<bar>x\<bar> else exp_lo \<bar>x\<bar>)"

text \<open>
  The double nearest to a real (IEEE 754 binary64, 53 significant bits, round to nearest,
  ties to even). A double is a multiple of \<open>2 ^ (e - 52)\<close>, \<open>e\<close> its exponent. Magnitudes
  from \<open>2 ^ 1024\<close> on, which a double rounds to infinity, are outside the model.
\<close>

definition round_double :: "real \<Rightarrow> real" where
  "round_double x =
     (if x = 0 then 0
      else (let q = pow2 (double_exponent x - 52) in of_int (rne (x / q)) * q))"

text \<open>
  \<^verbatim>\<open>a * b\<close> on two floats: the exact product of the two doubles, rounded to a double.
\<close>

definition double_product :: "real \<Rightarrow> real \<Rightarrow> real" where
  "double_product a b = round_double (round_double a * round_double b)"

subsection \<open>numpy operations\<close>

text \<open>\<^verbatim>\<open>int(...)\<close> of a float: truncation towards zero.\<close>

definition py_int :: "real \<Rightarrow> int" where
  "py_int r = (if 0 \<le> r then \<lfloor>r\<rfloor> else \<lceil>r\<rceil>)"

text \<open>
  \<^verbatim>\<open>np.linspace(0, stop, num)\<close>: a negative \<open>num\<close> raises \<^verbatim>\<open>ValueError\<close>; one
  sample is \<open>[0]\<close>; otherwise sample \<open>i\<close> is \<open>i * (stop / (num - 1))\<close>.
\<close>

definition linspace0 :: "real \<Rightarrow> int \<Rightarrow> error + real list" where
  "linspace0 stop num =
     (if num < 0 then Inl ValueError
      else if num = 1 then Inr [0]
      else Inr (map (\<lambda>i. real i * (stop / real_of_int (num - 1))) [0..<nat num]))"

text \<open>\<^verbatim>\<open>a + b\<close> on two arrays of one shape.\<close>

definition vadd :: "real list \<Rightarrow> real list \<Rightarrow> real list" where
  "vadd a b = map2 (+) a b"

text \<open>\<^verbatim>\<open>np.where(x >= pos, mag, 0)\<close>.\<close>

definition where_ge :: "real list \<Rightarrow> real \<Rightarrow> real \<Rightarrow> real list" where
  "where_ge x pos mag = map (\<lambda>xi. if xi \<ge> pos then mag else 0) x"

text \<open>\<^verbatim>\<open>np.cumsum\<close>: the running sum, kept in an accumulator.\<close>

fun cumsum_from :: "real \<Rightarrow> real list \<Rightarrow> real list" where
  "cumsum_from acc [] = []"
| "cumsum_from acc (v # vs) = (acc + v) # cumsum_from (acc + v) vs"

definition cumsum :: "real list \<Rightarrow> real list" where
  "cumsum vs = cumsum_from 0 vs"

text \<open>
  \<^verbatim>\<open>np.argmin\<close>: the index of the first occurrence of the minimum; \<^verbatim>\<open>ValueError\<close>
  on an empty array.
\<close>

fun argmin_loop :: "real list \<Rightarrow> nat \<Rightarrow> nat \<Rightarrow> real \<Rightarrow> nat" where
  "argmin_loop [] i best_i best_v = best_i"
| "argmin_loop (v # vs) i best_i best_v =
     (if v < best_v then argmin_loop vs (Suc i) i v
      else argmin_loop vs (Suc i) best_i best_v)"

definition argmin :: "real list \<Rightarrow> error + nat" where
  "argmin vs = (case vs of [] \<Rightarrow> Inl ValueError | v # rest \<Rightarrow> Inr (argmin_loop rest 1 0 v))"

subsection \<open>Shear, moment, slope and deflection\<close>

text \<open>Lines 113-114: one Heaviside step per reaction.\<close>

fun add_reactions :: "real list \<Rightarrow> reactions \<Rightarrow> real list \<Rightarrow> real list" where
  "add_reactions x [] V = V"
| "add_reactions x ((pos, mag) # rs) V = add_reactions x rs (vadd V (where_ge x pos mag))"

text \<open>Lines 115-122: the contribution of each load, added in list order.\<close>

fun add_load :: "real list \<Rightarrow> load \<Rightarrow> real list \<Rightarrow> real list" where
  "add_load x (Point magnitude position) V = vadd V (where_ge x position magnitude)"
| "add_load x (Distributed mag start end) V =
     (let V1 = vadd V (map (\<lambda>xi. if xi \<ge> start \<and> xi < end then mag * (xi - start) else 0) x)
      in vadd V1 (where_ge x end (mag * (end - start))))"
| "add_load x OtherLoad V = V"

fun add_loads :: "real list \<Rightarrow> load list \<Rightarrow> real list \<Rightarrow> real list" where
  "add_loads x [] V = V"
| "add_loads x (l # ls) V = add_loads x ls (add_load x l V)"

definition shear :: "real list \<Rightarrow> reactions \<Rightarrow> load list \<Rightarrow> real list" where
  "shear x rs loads = add_loads x loads (add_reactions x rs (replicate (length x) 0))"

text \<open>Lines 111 and 124: \<^verbatim>\<open>M = np.full(n, initial_moment); M += np.cumsum(V) * dx\<close>.\<close>

definition moment :: "real \<Rightarrow> real \<Rightarrow> real list \<Rightarrow> real list" where
  "moment initial_moment dx V =
     vadd (replicate (length V) initial_moment) (map (\<lambda>c. c * dx) (cumsum V))"

text \<open>Lines 130-133, for \<open>E * I \<noteq> 0\<close>.\<close>

definition slope_of :: "real \<Rightarrow> real \<Rightarrow> real \<Rightarrow> real list \<Rightarrow> real list" where
  "slope_of E I dx M = map (\<lambda>c. c * dx) (cumsum (map (\<lambda>m. m / (E * I)) M))"

definition deflection_raw :: "real \<Rightarrow> real list \<Rightarrow> real list" where
  "deflection_raw dx slope = map (\<lambda>c. c * dx) (cumsum slope)"

subsection \<open>Boundary conditions\<close>

text \<open>
  Lines 141-156. \<^verbatim>\<open>next(...)\<close> without a default raises \<^verbatim>\<open>StopIteration\<close> when no
  support has the type.
\<close>

definition support_indices :: "real list \<Rightarrow> support list \<Rightarrow> error + (nat \<times> nat)" where
  "support_indices x supports =
     (case next_position ''pinned'' supports of
        None \<Rightarrow> Inl StopIteration
      | Some pinned_pos \<Rightarrow>
     (case next_position ''roller'' supports of
        None \<Rightarrow> Inl StopIteration
      | Some roller_pos \<Rightarrow>
     (case argmin (map (\<lambda>xi. \<bar>xi - pinned_pos\<bar>) x) of
        Inl e \<Rightarrow> Inl e
      | Inr idx_pin \<Rightarrow>
     (case argmin (map (\<lambda>xi. \<bar>xi - roller_pos\<bar>) x) of
        Inl e \<Rightarrow> Inl e
      | Inr idx_roller \<Rightarrow>
          if x ! idx_roller - x ! idx_pin = 0
          then Inl (AnalysisError DeflectionSupportsSamePosition)
          else Inr (idx_pin, idx_roller)))))"

definition correction_line :: "real list \<Rightarrow> real list \<Rightarrow> nat \<Rightarrow> nat \<Rightarrow> real list" where
  "correction_line x deflection idx_pin idx_roller =
     (let y_pin_raw = deflection ! idx_pin;
          y_roller_raw = deflection ! idx_roller;
          line_slope = (y_roller_raw - y_pin_raw) / (x ! idx_roller - x ! idx_pin)
      in map (\<lambda>xi. line_slope * (xi - x ! idx_pin) + y_pin_raw) x)"

definition vsub :: "real list \<Rightarrow> real list \<Rightarrow> real list" where
  "vsub a b = map2 (-) a b"

subsection \<open>The pipeline\<close>

text \<open>\<^verbatim>\<open>float(properties.get(key, default))\<close>.\<close>

definition get_float :: "properties \<Rightarrow> string \<Rightarrow> real \<Rightarrow> error + real" where
  "get_float props key dflt =
     (case props key of
        None \<Rightarrow> Inr dflt
      | Some (PyNum r) \<Rightarrow> Inr r
      | Some PyNonNumeric \<Rightarrow> Inl ValueError)"

text \<open>Lines 75-80: any failure of the three conversions becomes one \<^verbatim>\<open>AnalysisError\<close>.\<close>

definition read_properties :: "properties \<Rightarrow> error + (real \<times> real \<times> real)" where
  "read_properties props =
     (case get_float props ''length'' 10 of
        Inl _ \<Rightarrow> Inl (AnalysisError InvalidBeamProperty)
      | Inr len \<Rightarrow>
     (case get_float props ''E'' 200000000000 of
        Inl _ \<Rightarrow> Inl (AnalysisError InvalidBeamProperty)
      | Inr E \<Rightarrow>
     (case get_float props ''I'' (83 / 1000000) of
        Inl _ \<Rightarrow> Inl (AnalysisError InvalidBeamProperty)
      | Inr I \<Rightarrow> Inr (len, E, I))))"

text \<open>
  Lines 82-84: the number of samples, the grid and its spacing. The number of samples is
  \<^verbatim>\<open>int(length * 200) + 1\<close> on the double-precision product: for the length
  \<open>0.015\<close> the double product is \<open>3.0\<close> and there are four samples, although the double
  nearest to \<open>0.015\<close> times \<open>200\<close> is below \<open>3\<close>.
\<close>

definition num_points_of :: "real \<Rightarrow> int" where
  "num_points_of len = py_int (double_product len 200) + 1"

definition make_grid :: "real \<Rightarrow> error + (real list \<times> real)" where
  "make_grid len =
     (let num_points = num_points_of len
      in case linspace0 len num_points of
           Inl e \<Rightarrow> Inl e
         | Inr x \<Rightarrow>
             if num_points - 1 = 0 then Inl ZeroDivisionError
             else Inr (x, len / real_of_int (num_points - 1)))"

text \<open>Lines 87-89.\<close>

definition support_types_of :: "support list \<Rightarrow> string list" where
  "support_types_of supports = sort (map stype supports)"

definition is_cantilever :: "support list \<Rightarrow> bool" where
  "is_cantilever supports \<longleftrightarrow> support_types_of supports = [''fixed''] \<and> length supports = 1"

definition is_ss :: "support list \<Rightarrow> bool" where
  "is_ss supports \<longleftrightarrow> support_types_of supports = [''pinned'', ''roller'']"

text \<open>Lines 91-107: dispatch on the support pattern.\<close>

definition dispatch_reactions ::
  "real \<Rightarrow> support list \<Rightarrow> load list \<Rightarrow> error + (reactions \<times> real)" where
  "dispatch_reactions len supports loads =
     (if is_ss supports then calculate_reactions_simply_supported len supports loads
      else if is_cantilever supports then calculate_reactions_cantilever supports loads
      else if ''pinned'' \<notin> set (support_types_of supports)
              \<and> ''fixed'' \<notin> set (support_types_of supports)
           then Inl (AnalysisError UnstableStructure)
           else Inl (AnalysisError (UnsupportedCombination (support_types_of supports))))"

text \<open>
  Lines 136-156: the deflection column. A cantilever keeps the raw deflection (the source
  only logs a warning); a simply supported beam has the correction line subtracted.
\<close>

definition apply_boundary_conditions ::
  "real list \<Rightarrow> support list \<Rightarrow> real list \<Rightarrow> error + real list" where
  "apply_boundary_conditions x supports deflection =
     (if is_cantilever supports then Inr deflection
      else if is_ss supports then
        (case support_indices x supports of
           Inl e \<Rightarrow> Inl e
         | Inr (idx_pin, idx_roller) \<Rightarrow>
             Inr (vsub deflection (correction_line x deflection idx_pin idx_roller)))
      else Inr deflection)"

text \<open>
  \<^verbatim>\<open>solve_beam\<close>. The test \<^verbatim>\<open>E is None or I is None\<close> of line 127 is applied to
  two results of \<^verbatim>\<open>float(...)\<close>, which are never \<^verbatim>\<open>None\<close>: it has no branch here.
  With \<open>E * I = 0\<close> and a non-empty grid, numpy's division gives \<^verbatim>\<open>inf\<close> and \<^verbatim>\<open>nan\<close>
  with a warning, the boundary conditions are applied all the same (the check of the
  support indices reads only \<open>x\<close>), and the table is returned.
\<close>

definition solve_beam :: "properties \<Rightarrow> support list \<Rightarrow> load list \<Rightarrow> error + table" where
  "solve_beam props supports loads =
     (case read_properties props of
        Inl e \<Rightarrow> Inl e
      | Inr (len, E, I) \<Rightarrow>
     (case make_grid len of
        Inl e \<Rightarrow> Inl e
      | Inr (x, dx) \<Rightarrow>
     (case dispatch_reactions len supports loads of
        Inl e \<Rightarrow> Inl e
      | Inr (reactions, initial_moment) \<Rightarrow>
          (let V = shear x reactions loads;
               M = moment initial_moment dx V;
               slope = slope_of E I dx M;
               deflection = deflection_raw dx slope
           in case apply_boundary_conditions x supports deflection of
                Inl e \<Rightarrow> Inl e
              | Inr deflection' \<Rightarrow>
                  if E * I = 0 \<and> x \<noteq> [] then Inr (NonFinite x V M)
                  else Inr (Finite \<lparr>Position_m = x, Shear_Force_N = V,
                         Bending_Moment_Nm = M, Slope_rad = slope,
                         Deflection_m = deflection'\<rparr>)))))"

subsection \<open>The quantities the specification names\<close>

text \<open>
  The resultant of a load and its position, as the specification words them: a point load
  is its own resultant; a distributed load's resultant is \<open>magnitude * (end - start)\<close> at
  the midpoint \<open>(start + end) / 2\<close>. A load of another type has no resultant (zero).
\<close>

fun resultant :: "load \<Rightarrow> real" where
  "resultant (Point magnitude position) = magnitude"
| "resultant (Distributed magnitude start end) = magnitude * (end - start)"
| "resultant OtherLoad = 0"

fun resultant_position :: "load \<Rightarrow> real" where
  "resultant_position (Point magnitude position) = position"
| "resultant_position (Distributed magnitude start end) = (start + end) / 2"
| "resultant_position OtherLoad = 0"

text \<open>The sum of the resultants, and the sum of their moments about the point \<open>a\<close>.\<close>

definition F_total :: "load list \<Rightarrow> real" where
  "F_total loads = (\<Sum>l\<leftarrow>loads. resultant l)"

definition M_about :: "real \<Rightarrow> load list \<Rightarrow> real" where
  "M_about a loads = (\<Sum>l\<leftarrow>loads. resultant l * (resultant_position l - a))"

text \<open>The three kinds of support the solver recognises.\<close>

definition pinned_at :: "real \<Rightarrow> support" where
  "pinned_at p = \<lparr>stype = ''pinned'', sposition = p\<rparr>"

definition roller_at :: "real \<Rightarrow> support" where
  "roller_at r = \<lparr>stype = ''roller'', sposition = r\<rparr>"

definition fixed_at :: "real \<Rightarrow> support" where
  "fixed_at r = \<lparr>stype = ''fixed'', sposition = r\<rparr>"

text \<open>
  The contribution of one load to the shear at position \<open>xi\<close>, as the specification
  words it: a point load adds its magnitude at and beyond its position; a distributed load
  adds \<open>m * (xi - start)\<close> inside its span and \<open>m * (end - start)\<close> at and beyond its end.
\<close>

fun load_shear :: "real \<Rightarrow> load \<Rightarrow> real" where
  "load_shear xi (Point m p) = (if xi \<ge> p then m else 0)"
| "load_shear xi (Distributed m start end) =
     (if xi \<ge> end then m * (end - start)
      else if start \<le> xi then m * (xi - start)
      else 0)"
| "load_shear xi OtherLoad = 0"

text \<open>A reaction \<open>(p, m)\<close> adds \<open>m\<close> at and beyond \<open>p\<close>.\<close>

definition reaction_shear :: "real \<Rightarrow> real \<times> real \<Rightarrow> real" where
  "reaction_shear xi rm = (case rm of (p, m) \<Rightarrow> if xi \<ge> p then m else 0)"

text \<open>The position, shear and moment columns of a returned table.\<close>

fun table_x :: "table \<Rightarrow> real list" where
  "table_x (Finite df) = Position_m df"
| "table_x (NonFinite x V M) = x"

fun table_V :: "table \<Rightarrow> real list" where
  "table_V (Finite df) = Shear_Force_N df"
| "table_V (NonFinite x V M) = V"

fun table_M :: "table \<Rightarrow> real list" where
  "table_M (Finite df) = Bending_Moment_Nm df"
| "table_M (NonFinite x V M) = M"

text \<open>
  The baseline of the moment series, as the specification words it: the fixed-end reaction
  moment \<open>- M_about_fixed\<close> for a cantilever, \<open>0\<close> otherwise.
\<close>

definition initial_moment_of :: "support list \<Rightarrow> load list \<Rightarrow> real" where
  "initial_moment_of supports loads =
     (case supports of
        [s] \<Rightarrow> if stype s = ''fixed'' then - M_about (sposition s) loads else 0
      | _ \<Rightarrow> 0)"

text \<open>
  The lengths of the five columns of a returned table (position, shear, moment, slope,
  deflection). With \<open>E * I = 0\<close> the slope and deflection columns have one non-finite
  entry per sample.
\<close>

definition n_rows :: "table \<Rightarrow> nat list" where
  "n_rows t =
     (case t of
        Finite df \<Rightarrow> [length (Position_m df), length (Shear_Force_N df),
          length (Bending_Moment_Nm df), length (Slope_rad df), length (Deflection_m df)]
      | NonFinite x V M \<Rightarrow> [length x, length V, length M, length x, length x])"

text \<open>The three defaults of lines 76-78, as a properties dict.\<close>

definition default_properties :: properties where
  "default_properties =
     [''length'' \<mapsto> PyNum 10, ''E'' \<mapsto> PyNum 200000000000, ''I'' \<mapsto> PyNum (83 / 1000000)]"

text \<open>
  Multiplying the magnitude of a load, and the four computed columns of a table, by a
  factor \<open>c\<close>; the positions stay.
\<close>

fun scale_load :: "real \<Rightarrow> load \<Rightarrow> load" where
  "scale_load c (Point magnitude position) = Point (c * magnitude) position"
| "scale_load c (Distributed magnitude start end) = Distributed (c * magnitude) start end"
| "scale_load c OtherLoad = OtherLoad"

definition scale :: "real \<Rightarrow> real list \<Rightarrow> real list" where
  "scale c vs = map (\<lambda>v. c * v) vs"

fun scale_table :: "real \<Rightarrow> table \<Rightarrow> table" where
  "scale_table c (Finite df) =
     Finite \<lparr>Position_m = Position_m df, Shear_Force_N = scale c (Shear_Force_N df),
       Bending_Moment_Nm = scale c (Bending_Moment_Nm df), Slope_rad = scale c (Slope_rad df),
       Deflection_m = scale c (Deflection_m df)\<rparr>"
| "scale_table c (NonFinite x V M) = NonFinite x (scale c V) (scale c M)"

definition scale_reactions :: "real \<Rightarrow> reactions \<times> real \<Rightarrow> reactions \<times> real" where
  "scale_reactions c rm = (case rm of (rs, m0) \<Rightarrow> (map (\<lambda>(p, m). (p, c * m)) rs, c * m0))"

subsection \<open>Example configurations\<close>

text \<open>
  A beam of one centimetre, sampled at three points (\<open>dx = 1 / 200\<close>), pinned at \<open>0\<close>
  with a roller at the other end, and a point load at midspan.
\<close>

definition ex_props :: properties where
  "ex_props = [''length'' \<mapsto> PyNum (1 / 100), ''E'' \<mapsto> PyNum 2, ''I'' \<mapsto> PyNum 3]"

definition ex_ss :: "support list" where
  "ex_ss = [pinned_at 0, roller_at (1 / 100)]"

definition ex_loads :: "load list" where
  "ex_loads = [Point (- 12) (1 / 200)]"

text \<open>The same beam as a cantilever, fixed at \<open>0\<close>.\<close>

definition ex_cantilever :: "support list" where
  "ex_cantilever = [fixed_at 0]"

text \<open>Two rollers, and a pinned support and a roller at one position.\<close>

definition ex_rollers :: "support list" where
  "ex_rollers = [roller_at 0, roller_at (1 / 100)]"

definition ex_coincident :: "support list" where
  "ex_coincident = [pinned_at 0, roller_at 0]"

text \<open>
  Properties with a negative \<open>E\<close> and no \<open>I\<close>, and properties whose \<open>E\<close> is not a
  number.
\<close>

definition ex_props_negative_E :: properties where
  "ex_props_negative_E = [''length'' \<mapsto> PyNum (1 / 100), ''E'' \<mapsto> PyNum (- 2)]"

definition ex_props_bad_E :: properties where
  "ex_props_bad_E = [''length'' \<mapsto> PyNum (1 / 100), ''E'' \<mapsto> PyNonNumeric]"

text \<open>The example properties with a negative length.\<close>

definition ex_props_negative_length :: properties where
  "ex_props_negative_length =
     [''length'' \<mapsto> PyNum (- (3 / 400)), ''E'' \<mapsto> PyNum 2, ''I'' \<mapsto> PyNum 3]"

text \<open>Two point loads, and the same two with the magnitude of the first doubled.\<close>

definition ex_two_loads :: "load list" where
  "ex_two_loads = [Point (- 12) (1 / 200), Point (- 12) (1 / 100)]"

definition ex_two_loads_doubled :: "load list" where
  "ex_two_loads_doubled = [Point (2 * - 12) (1 / 200), Point (- 12) (1 / 100)]"

section \<open>Properties\<close>

subsection \<open>Double-precision products\<close>

lemmas double_eval =
  double_product_def round_double_def double_exponent_def pow2_def rne_def Let_def
  exp_hi.simps exp_lo.simps

lemma double_product_hundredth: "double_product (1 / 100) 200 = 2"
  by (simp add: double_eval)

lemma double_product_ten: "double_product 10 200 = 2000"
  by (simp add: double_eval)

lemma double_product_negative: "double_product (- (3 / 400)) 200 = - (3 / 2)"
  by (simp add: double_eval)

lemma round_double_0015: "round_double (3 / 200) = 8646911284551352 / 2 ^ 59"
  by (simp add: double_eval)

lemma double_product_0015: "double_product (3 / 200) 200 = 3"
  by (simp add: double_eval)

lemma num_points_0015:
  "num_points_of (3 / 200) = 4" "num_points_of (8646911284551352 / 2 ^ 59) = 4"
  by (simp_all add: num_points_of_def py_int_def double_eval)

lemma double_product_0145: "double_product (29 / 200) 200 = 29 - 1 / 2 ^ 48"
  by (simp add: double_eval)

lemma num_points_0145: "num_points_of (29 / 200) = 29"
  by (simp add: num_points_of_def py_int_def double_product_0145)

lemma pow2_pos: "0 < pow2 e"
  by (simp add: pow2_def)

lemma rne_nonneg: "0 \<le> x \<Longrightarrow> 0 \<le> rne x"
  by (auto simp: rne_def Let_def)

lemma round_double_nonneg: "0 \<le> x \<Longrightarrow> 0 \<le> round_double x"
  by (simp add: round_double_def Let_def rne_nonneg pow2_pos less_imp_le)

lemma double_product_nonneg: "0 \<le> a \<Longrightarrow> 0 \<le> b \<Longrightarrow> 0 \<le> double_product a b"
  by (simp add: double_product_def round_double_nonneg)

subsection \<open>The load loop and the support pattern\<close>

lemma load_step_sums:
  "load_step ref l (f, m) = (f + resultant l, m + resultant l * (resultant_position l - ref))"
  by (cases l) (simp_all add: Let_def field_simps)

lemma load_loop_sums:
  "load_loop ref ls (f, m) = (f + F_total ls, m + M_about ref ls)"
  by (induction ls arbitrary: f m) (simp_all add: load_step_sums F_total_def M_about_def add.assoc)

lemma M_about_shift: "M_about a ls = M_about p ls + F_total ls * (p - a)"
  by (induction ls) (simp_all add: F_total_def M_about_def algebra_simps)

lemma pinned_le_roller: "''pinned'' \<le> ''roller''" 
  by simp

lemma sort_eq_iff: "sorted ys \<Longrightarrow> sort xs = ys \<longleftrightarrow> mset xs = mset ys" for xs :: "string list"
  using properties_for_sort mset_sort by metis

lemma is_ss_iff: "is_ss supports \<longleftrightarrow> mset (map stype supports) = {#''pinned'', ''roller''#}"
  unfolding is_ss_def support_types_of_def
  by (subst sort_eq_iff) simp_all

lemma is_cantilever_iff: "is_cantilever supports \<longleftrightarrow> map stype supports = [''fixed'']"
  unfolding is_cantilever_def support_types_of_def
  by (cases supports; cases "tl supports") (auto simp: sort_eq_iff)

lemma mset_two: "mset xs = {#a, b#} \<longleftrightarrow> xs = [a, b] \<or> xs = [b, a]"
proof
  assume h: "mset xs = {#a, b#}"
  then have "size (mset xs) = 2" by simp
  then have "length xs = 2" by simp
  then obtain u v where xs: "xs = [u, v]"
    by (metis (no_types) Suc_length_conv length_0_conv numeral_2_eq_2)
  with h show "xs = [a, b] \<or> xs = [b, a]" 
    by (auto simp: add_eq_conv_ex)
qed auto


lemma next_position_ss:
  assumes "mset supports = {#pinned_at p, roller_at r#}"
  shows "next_position ''pinned'' supports = Some p" "next_position ''roller'' supports = Some r"
    "is_ss supports" "\<not> is_cantilever supports"
proof -
  from assms have "supports = [pinned_at p, roller_at r] \<or> supports = [roller_at r, pinned_at p]"
    by (simp add: mset_two)
  then show "next_position ''pinned'' supports = Some p" "next_position ''roller'' supports = Some r"
    "is_ss supports" "\<not> is_cantilever supports"
    by (auto simp: pinned_at_def roller_at_def is_ss_iff is_cantilever_iff)
qed

lemma cumsum_from_length [simp]: "length (cumsum_from a vs) = length vs"
  by (induction vs arbitrary: a) simp_all

lemma cumsum_from_nth:
  "i < length vs \<Longrightarrow> cumsum_from a vs ! i = a + (\<Sum>j\<le>i. vs ! j)"
proof (induction vs arbitrary: a i)
  case Nil
  then show ?case by simp
next
  case (Cons v vs)
  show ?case
  proof (cases i)
    case 0
    then show ?thesis by simp
  next
    case (Suc k)
    with Cons.prems have k: "k < length vs" by simp
    have "(\<Sum>j\<le>Suc k. (v # vs) ! j) = v + (\<Sum>j\<le>k. vs ! j)"
      by (simp add: sum.atMost_Suc_shift del: sum.atMost_Suc)
    with Cons.IH [OF k, of "a + v"] Suc show ?thesis by simp
  qed
qed

lemma cumsum_length [simp]: "length (cumsum vs) = length vs"
  by (simp add: cumsum_def)

lemma cumsum_nth: "i < length vs \<Longrightarrow> cumsum vs ! i = (\<Sum>j\<le>i. vs ! j)"
  by (simp add: cumsum_def cumsum_from_nth)

lemma vadd_length [simp]: "length (vadd a b) = min (length a) (length b)"
  by (simp add: vadd_def)

lemma vadd_nth: "i < length a \<Longrightarrow> i < length b \<Longrightarrow> vadd a b ! i = a ! i + b ! i"
  by (simp add: vadd_def)

lemma where_ge_length [simp]: "length (where_ge x pos mag) = length x"
  by (simp add: where_ge_def)

lemma add_reactions_length [simp]:
  "length V = length x \<Longrightarrow> length (add_reactions x rs V) = length x"
  by (induction x rs V rule: add_reactions.induct) simp_all

lemma add_load_length [simp]: "length V = length x \<Longrightarrow> length (add_load x l V) = length x"
  by (cases l) (simp_all add: Let_def)

lemma add_loads_length [simp]:
  "length V = length x \<Longrightarrow> length (add_loads x ls V) = length x"
  by (induction x ls V rule: add_loads.induct) simp_all

lemma shear_length [simp]: "length (shear x rs loads) = length x"
  by (simp add: shear_def)

lemma moment_length [simp]: "length (moment m0 dx V) = length V"
  by (simp add: moment_def)

lemma slope_of_length [simp]: "length (slope_of E I dx M) = length M"
  by (simp add: slope_of_def)

lemma deflection_raw_length [simp]: "length (deflection_raw dx s) = length s"
  by (simp add: deflection_raw_def)

lemma moment_nth:
  "i < length V \<Longrightarrow> moment m0 dx V ! i = m0 + dx * (\<Sum>j\<le>i. V ! j)"
  by (simp add: moment_def vadd_nth cumsum_nth mult.commute)

lemma slope_of_nth:
  "i < length M \<Longrightarrow> slope_of E I dx M ! i = dx * (\<Sum>j\<le>i. M ! j / (E * I))"
proof -
  assume i: "i < length M"
  have "(\<Sum>j\<le>i. map (\<lambda>m. m / (E * I)) M ! j) = (\<Sum>j\<le>i. M ! j / (E * I))"
    using i by (intro sum.cong) simp_all
  with i show ?thesis
    by (simp add: slope_of_def cumsum_nth mult.commute)
qed

lemma deflection_raw_nth:
  "i < length s \<Longrightarrow> deflection_raw dx s ! i = dx * (\<Sum>j\<le>i. s ! j)"
  by (simp add: deflection_raw_def cumsum_nth mult.commute)

subsection \<open>Recognised support patterns and the structure of a solve\<close>

lemma support_eq_pinned_at: "stype s = ''pinned'' \<Longrightarrow> s = pinned_at (sposition s)"
  by (simp add: pinned_at_def)

lemma support_eq_roller_at: "stype s = ''roller'' \<Longrightarrow> s = roller_at (sposition s)"
  by (simp add: roller_at_def)

lemma support_eq_fixed_at: "stype s = ''fixed'' \<Longrightarrow> s = fixed_at (sposition s)"
  by (simp add: fixed_at_def)

lemma is_ss_mset:
  "is_ss supports \<longleftrightarrow> (\<exists>p r. mset supports = {#pinned_at p, roller_at r#})"
proof
  assume "is_ss supports"
  then have "mset (map stype supports) = {#''pinned'', ''roller''#}"
    by (simp only: is_ss_iff)
  then have "map stype supports = [''pinned'', ''roller'']
      \<or> map stype supports = [''roller'', ''pinned'']"
    by (simp only: mset_two)
  then obtain a b where ab: "supports = [a, b]"
    and ty: "stype a = ''pinned'' \<and> stype b = ''roller''
       \<or> stype a = ''roller'' \<and> stype b = ''pinned''"
    by auto
  from ty show "\<exists>p r. mset supports = {#pinned_at p, roller_at r#}"
  proof
    assume "stype a = ''pinned'' \<and> stype b = ''roller''"
    then have "a = pinned_at (sposition a)" "b = roller_at (sposition b)"
      by (simp_all add: support_eq_pinned_at support_eq_roller_at)
    with ab have "mset supports = {#pinned_at (sposition a), roller_at (sposition b)#}"
      by simp
    then show ?thesis by blast
  next
    assume "stype a = ''roller'' \<and> stype b = ''pinned''"
    then have "a = roller_at (sposition a)" "b = pinned_at (sposition b)"
      by (simp_all add: support_eq_pinned_at support_eq_roller_at)
    with ab have "mset supports = {#pinned_at (sposition b), roller_at (sposition a)#}"
      by (simp add: add_mset_commute)
    then show ?thesis by blast
  qed
next
  assume "\<exists>p r. mset supports = {#pinned_at p, roller_at r#}"
  then show "is_ss supports"
    using next_position_ss(3) by blast
qed

lemma is_cantilever_fixed_at: "is_cantilever supports \<longleftrightarrow> (\<exists>f. supports = [fixed_at f])"
proof
  assume "is_cantilever supports"
  then obtain s where "supports = [s]" "stype s = ''fixed''"
    by (auto simp: is_cantilever_iff)
  then have "supports = [fixed_at (sposition s)]"
    using support_eq_fixed_at by simp
  then show "\<exists>f. supports = [fixed_at f]" ..
next
  assume "\<exists>f. supports = [fixed_at f]"
  then show "is_cantilever supports"
    by (auto simp: is_cantilever_iff fixed_at_def)
qed

lemma not_ss_fixed: "\<not> is_ss [fixed_at f]"
  by (simp add: is_ss_iff fixed_at_def)

lemma calculate_ss_value:
  assumes "mset supports = {#pinned_at p, roller_at r#}" and "r \<noteq> p"
  shows "calculate_reactions_simply_supported len supports loads
     = Inr ([(p, - F_total loads - (- M_about p loads / (r - p))),
             (r, - M_about p loads / (r - p))], 0)"
  using assms(2)
  by (simp add: calculate_reactions_simply_supported_def next_position_ss [OF assms(1)]
      load_loop_sums)

lemma calculate_ss_coincident:
  assumes "mset supports = {#pinned_at p, roller_at p#}"
  shows "calculate_reactions_simply_supported len supports loads
     = Inl (AnalysisError SupportsSamePosition)"
  by (simp add: calculate_reactions_simply_supported_def next_position_ss [OF assms]
      split: prod.splits)

lemma dispatch_ss:
  assumes "mset supports = {#pinned_at p, roller_at r#}"
  shows "dispatch_reactions len supports loads =
     (if r = p then Inl (AnalysisError SupportsSamePosition)
      else Inr ([(p, - F_total loads - (- M_about p loads / (r - p))),
             (r, - M_about p loads / (r - p))], 0))"
  using calculate_ss_value [OF assms] calculate_ss_coincident assms
  by (simp add: dispatch_reactions_def next_position_ss(3) [OF assms])

lemma dispatch_cantilever:
  "dispatch_reactions len [fixed_at f] loads = Inr ([(f, - F_total loads)], - M_about f loads)"
proof -
  have "is_cantilever [fixed_at f]"
    by (simp add: is_cantilever_iff fixed_at_def)
  then have "dispatch_reactions len [fixed_at f] loads
      = calculate_reactions_cantilever [fixed_at f] loads"
    by (simp add: dispatch_reactions_def not_ss_fixed)
  then show ?thesis
    by (simp add: calculate_reactions_cantilever_def load_loop_sums fixed_at_def)
qed

lemma dispatch_Inr_cases:
  assumes "dispatch_reactions len supports loads = Inr (rs, m0)"
  obtains (ss) p r where "mset supports = {#pinned_at p, roller_at r#}" "r \<noteq> p"
      "rs = [(p, - F_total loads - (- M_about p loads / (r - p))),
             (r, - M_about p loads / (r - p))]" "m0 = 0"
  | (cantilever) f where "supports = [fixed_at f]" "rs = [(f, - F_total loads)]"
      "m0 = - M_about f loads"
proof (cases "is_ss supports")
  case True
  then obtain p r where m: "mset supports = {#pinned_at p, roller_at r#}"
    by (auto simp: is_ss_mset)
  with assms dispatch_ss [OF m, of len loads] show ?thesis
    by (intro ss [of p r]) (auto split: if_splits)
next
  case False
  with assms have "is_cantilever supports"
    by (auto simp: dispatch_reactions_def split: if_splits)
  then obtain f where f: "supports = [fixed_at f]"
    by (auto simp: is_cantilever_fixed_at)
  with assms dispatch_cantilever [of len f loads] show ?thesis
    by (intro cantilever [of f]) auto
qed

lemma solve_beam_Inr_cases:
  assumes "solve_beam props supports loads = Inr t"
  obtains len E I x dx rs m0 d where
    "read_properties props = Inr (len, E, I)"
    "make_grid len = Inr (x, dx)"
    "dispatch_reactions len supports loads = Inr (rs, m0)"
    "apply_boundary_conditions x supports
       (deflection_raw dx (slope_of E I dx (moment m0 dx (shear x rs loads)))) = Inr d"
    "t = (if E * I = 0 \<and> x \<noteq> [] then
            NonFinite x (shear x rs loads) (moment m0 dx (shear x rs loads))
          else Finite \<lparr>Position_m = x, Shear_Force_N = shear x rs loads,
                 Bending_Moment_Nm = moment m0 dx (shear x rs loads),
                 Slope_rad = slope_of E I dx (moment m0 dx (shear x rs loads)),
                 Deflection_m = d\<rparr>)"
  using assms unfolding solve_beam_def Let_def
  by (auto split: sum.splits prod.splits if_splits)

subsection \<open>Shear as a sum of steps\<close>

lemma where_ge_nth: "i < length x \<Longrightarrow> where_ge x pos mag ! i = (if x ! i \<ge> pos then mag else 0)"
  by (simp add: where_ge_def)

lemma add_reactions_nth:
  "length V = length x \<Longrightarrow> i < length x \<Longrightarrow>
   add_reactions x rs V ! i = V ! i + (\<Sum>rm\<leftarrow>rs. reaction_shear (x ! i) rm)"
  by (induction x rs V rule: add_reactions.induct)
     (simp_all add: vadd_nth where_ge_nth reaction_shear_def)

lemma add_load_nth:
  "length V = length x \<Longrightarrow> i < length x \<Longrightarrow>
   add_load x l V ! i = V ! i + load_shear (x ! i) l"
  by (cases l) (simp_all add: vadd_nth where_ge_nth Let_def)

lemma add_loads_nth:
  "length V = length x \<Longrightarrow> i < length x \<Longrightarrow>
   add_loads x ls V ! i = V ! i + (\<Sum>l\<leftarrow>ls. load_shear (x ! i) l)"
  by (induction x ls V rule: add_loads.induct) (simp_all add: add_load_nth)

lemma shear_nth:
  "i < length x \<Longrightarrow>
   shear x rs loads ! i
     = (\<Sum>rm\<leftarrow>rs. reaction_shear (x ! i) rm) + (\<Sum>l\<leftarrow>loads. load_shear (x ! i) l)"
  by (simp add: shear_def add_loads_nth add_reactions_nth)

lemma table_columns:
  assumes "solve_beam props supports loads = Inr t"
    and "read_properties props = Inr (len, E, I)"
    and "make_grid len = Inr (x, dx)"
    and "dispatch_reactions len supports loads = Inr (rs, m0)"
  shows "table_x t = x" "table_V t = shear x rs loads"
    "table_M t = moment m0 dx (shear x rs loads)"
  using assms by (auto elim!: solve_beam_Inr_cases split: if_splits)

subsection \<open>The example, evaluated\<close>

lemma ex_read: "read_properties ex_props = Inr (1 / 100, 2, 3)"
  by (simp add: read_properties_def get_float_def ex_props_def)

lemma ex_grid: "make_grid (1 / 100) = Inr ([0, 1 / 200, 1 / 100], 1 / 200)"
  by (simp add: make_grid_def num_points_of_def double_product_hundredth py_int_def
      linspace0_def upt_rec)

lemma ex_mset: "mset ex_ss = {#pinned_at 0, roller_at (1 / 100)#}"
  by (simp add: ex_ss_def)

lemma ex_dispatch: "dispatch_reactions (1 / 100) ex_ss ex_loads = Inr ([(0, 6), (1 / 100, 6)], 0)"
  by (simp add: dispatch_ss [OF ex_mset] ex_loads_def F_total_def M_about_def)

lemma solve_beam_returns:
  assumes "read_properties props = Inr (len, E, I)"
    and "make_grid len = Inr (x, dx)"
    and "dispatch_reactions len supports loads = Inr (rs, m0)"
    and "V = shear x rs loads"
    and "M = moment m0 dx V"
    and "s = slope_of E I dx M"
    and "apply_boundary_conditions x supports (deflection_raw dx s) = Inr d"
  shows "solve_beam props supports loads =
     Inr (if E * I = 0 \<and> x \<noteq> [] then NonFinite x V M
          else Finite \<lparr>Position_m = x, Shear_Force_N = V, Bending_Moment_Nm = M,
                 Slope_rad = s, Deflection_m = d\<rparr>)"
  using assms by (simp add: solve_beam_def Let_def)

lemma ex_shear: "shear [0, 1 / 200, 1 / 100] [(0, 6), (1 / 100, 6)] ex_loads = [6, - 6, 0]"
  by (simp add: ex_loads_def shear_def vadd_def where_ge_def)

lemma ex_moment: "moment 0 (1 / 200) [6, - 6, 0] = [3 / 100, 0, 0]"
  by (simp add: moment_def cumsum_def vadd_def)

lemma ex_slope: "slope_of 2 3 (1 / 200) [3 / 100, 0, 0] = [1 / 40000, 1 / 40000, 1 / 40000]"
  by (simp add: slope_of_def cumsum_def)

lemma ex_raw:
  "deflection_raw (1 / 200) [1 / 40000, 1 / 40000, 1 / 40000]
     = [1 / 8000000, 2 / 8000000, 3 / 8000000]"
  by (simp add: deflection_raw_def cumsum_def)

lemma ex_indices: "support_indices [0, 1 / 200, 1 / 100] ex_ss = Inr (0, 2)"
  by (simp add: support_indices_def next_position_ss [OF ex_mset] argmin_def)

lemma ex_boundary:
  "apply_boundary_conditions [0, 1 / 200, 1 / 100] ex_ss
     [1 / 8000000, 2 / 8000000, 3 / 8000000] = Inr [0, 0, 0]"
  by (simp add: apply_boundary_conditions_def next_position_ss [OF ex_mset] ex_indices
      correction_line_def vsub_def)

lemma ex_solve:
  "solve_beam ex_props ex_ss ex_loads
     = Inr (Finite \<lparr>Position_m = [0, 1 / 200, 1 / 100], Shear_Force_N = [6, - 6, 0],
          Bending_Moment_Nm = [3 / 100, 0, 0],
          Slope_rad = [1 / 40000, 1 / 40000, 1 / 40000],
          Deflection_m = [0, 0, 0]\<rparr>)"
  using solve_beam_returns [OF ex_read ex_grid ex_dispatch ex_shear [symmetric]
      ex_moment [symmetric] ex_slope [symmetric], of "[0, 0, 0]"] ex_raw ex_boundary
  by simp

subsection \<open>The integrated series\<close>

lemma make_grid_length:
  "make_grid len = Inr (x, dx) \<Longrightarrow> length x = nat (num_points_of len)"
  by (auto simp: make_grid_def linspace0_def Let_def split: if_splits)

lemma boundary_cantilever:
  "apply_boundary_conditions x [fixed_at f] d = Inr d"
  by (simp add: apply_boundary_conditions_def is_cantilever_iff fixed_at_def)

lemma cantilever_deflection_is_raw:
  assumes "solve_beam props [fixed_at f] loads = Inr (Finite df)"
    and "read_properties props = Inr (len, E, I)"
    and "make_grid len = Inr (x, dx)"
  shows "Deflection_m df = deflection_raw dx (Slope_rad df)"
  using assms by (auto elim!: solve_beam_Inr_cases simp: boundary_cantilever split: if_splits)

lemma initial_moment_of_dispatch:
  assumes "dispatch_reactions len supports loads = Inr (rs, m0)"
  shows "m0 = initial_moment_of supports loads"
  using assms
proof (cases rule: dispatch_Inr_cases)
  case (ss p r)
  from ss(1) have "supports = [pinned_at p, roller_at r] \<or> supports = [roller_at r, pinned_at p]"
    by (simp add: mset_two)
  with ss(4) show ?thesis
    by (auto simp: initial_moment_of_def)
next
  case (cantilever f)
  then show ?thesis
    by (simp add: initial_moment_of_def fixed_at_def)
qed

lemma ex_dispatch_cantilever:
  "dispatch_reactions (1 / 100) ex_cantilever ex_loads = Inr ([(0, 12)], 3 / 50)"
  by (simp add: ex_cantilever_def dispatch_cantilever ex_loads_def F_total_def M_about_def)

lemma ex_shear_cantilever: "shear [0, 1 / 200, 1 / 100] [(0, 12)] ex_loads = [12, 0, 0]"
  by (simp add: ex_loads_def shear_def vadd_def where_ge_def)

lemma ex_moment_cantilever: "moment (3 / 50) (1 / 200) [12, 0, 0] = [3 / 25, 3 / 25, 3 / 25]"
  by (simp add: moment_def cumsum_def vadd_def)

lemma ex_slope_cantilever:
  "slope_of 2 3 (1 / 200) [3 / 25, 3 / 25, 3 / 25] = [1 / 10000, 1 / 5000, 3 / 10000]"
  by (simp add: slope_of_def cumsum_def)

lemma ex_raw_cantilever:
  "deflection_raw (1 / 200) [1 / 10000, 1 / 5000, 3 / 10000]
     = [1 / 2000000, 3 / 2000000, 3 / 1000000]"
  by (simp add: deflection_raw_def cumsum_def)

lemma ex_solve_cantilever:
  "solve_beam ex_props ex_cantilever ex_loads
     = Inr (Finite \<lparr>Position_m = [0, 1 / 200, 1 / 100], Shear_Force_N = [12, 0, 0],
          Bending_Moment_Nm = [3 / 25, 3 / 25, 3 / 25],
          Slope_rad = [1 / 10000, 1 / 5000, 3 / 10000],
          Deflection_m = [1 / 2000000, 3 / 2000000, 3 / 1000000]\<rparr>)"
  using solve_beam_returns [OF ex_read ex_grid ex_dispatch_cantilever
      ex_shear_cantilever [symmetric] ex_moment_cantilever [symmetric]
      ex_slope_cantilever [symmetric], of "[1 / 2000000, 3 / 2000000, 3 / 1000000]"]
    ex_raw_cantilever boundary_cantilever
  by (simp add: ex_cantilever_def)

subsection \<open>The nearest grid index\<close>

lemma argmin_loop_least:
  assumes "length ws = i" and "bi < i" and "ws ! bi = bv"
    and "\<forall>j<i. bv \<le> ws ! j"
  shows "argmin_loop vs i bi bv < length (ws @ vs)
       \<and> (\<forall>j<length (ws @ vs). (ws @ vs) ! argmin_loop vs i bi bv \<le> (ws @ vs) ! j)"
  using assms
proof (induction vs arbitrary: ws i bi bv)
  case Nil
  then show ?case by simp
next
  case (Cons v vs)
  let ?ws = "ws @ [v]"
  have len: "length ?ws = Suc i" using Cons.prems(1) by simp
  show ?case
  proof (cases "v < bv")
    case True
    have "\<forall>j<Suc i. v \<le> ?ws ! j"
      using Cons.prems True by (auto simp: nth_append less_Suc_eq)
    with Cons.IH [of ?ws "Suc i" i v] len Cons.prems(1) True show ?thesis
      by (simp add: nth_append)
  next
    case False
    have "\<forall>j<Suc i. bv \<le> ?ws ! j"
      using Cons.prems False by (auto simp: nth_append less_Suc_eq)
    moreover have "?ws ! bi = bv" "bi < Suc i"
      using Cons.prems by (simp_all add: nth_append)
    ultimately show ?thesis
      using Cons.IH [of ?ws "Suc i" bi bv] len False by simp
  qed
qed

lemma argmin_least:
  assumes "argmin vs = Inr k"
  shows "k < length vs \<and> (\<forall>j<length vs. vs ! k \<le> vs ! j)"
proof (cases vs)
  case Nil
  with assms show ?thesis by (simp add: argmin_def)
next
  case (Cons v rest)
  with assms have k: "k = argmin_loop rest 1 0 v" by (simp add: argmin_def)
  from argmin_loop_least [of "[v]" 1 0 v rest] show ?thesis
    by (simp add: k Cons)
qed

lemma argmin_nonempty: "vs \<noteq> [] \<Longrightarrow> \<exists>k. argmin vs = Inr k"
  by (cases vs) (simp_all add: argmin_def)

lemma vsub_length [simp]: "length (vsub a b) = min (length a) (length b)"
  by (simp add: vsub_def)

lemma correction_line_length [simp]: "length (correction_line x d ip ir) = length x"
  by (simp add: correction_line_def Let_def)

lemma correction_line_nth:
  "i < length x \<Longrightarrow>
   correction_line x d ip ir ! i
     = (d ! ir - d ! ip) / (x ! ir - x ! ip) * (x ! i - x ! ip) + d ! ip"
  by (simp add: correction_line_def Let_def)

lemma support_indices_ss:
  assumes "mset supports = {#pinned_at p, roller_at r#}"
    and "support_indices x supports = Inr (ip, ir)"
  shows "argmin (map (\<lambda>xi. \<bar>xi - p\<bar>) x) = Inr ip"
    and "argmin (map (\<lambda>xi. \<bar>xi - r\<bar>) x) = Inr ir"
    and "x ! ir \<noteq> x ! ip"
  using assms(2)
  by (auto simp: support_indices_def next_position_ss [OF assms(1)]
      split: sum.splits if_splits)

lemma boundary_ss:
  assumes "mset supports = {#pinned_at p, roller_at r#}"
    and "apply_boundary_conditions x supports d = Inr d'"
  obtains ip ir where "support_indices x supports = Inr (ip, ir)"
    and "d' = vsub d (correction_line x d ip ir)"
  using assms(2)
  by (auto simp: apply_boundary_conditions_def next_position_ss [OF assms(1)]
      split: sum.splits)

subsection \<open>The grid\<close>

lemma py_int_nonneg: "0 \<le> r \<Longrightarrow> py_int r = \<lfloor>r\<rfloor>"
  by (simp add: py_int_def)

lemma make_grid_Inr:
  assumes "make_grid len = Inr (x, dx)"
  shows "num_points_of len \<noteq> 1" and "0 \<le> num_points_of len"
    and "dx = len / real_of_int (num_points_of len - 1)"
    and "x = map (\<lambda>i. real i * dx) [0..<nat (num_points_of len)]"
  using assms by (auto simp: make_grid_def linspace0_def Let_def split: if_splits)

lemma make_grid_positive:
  assumes "make_grid len = Inr (x, dx)" and "0 < len"
  shows "2 \<le> num_points_of len"
    and "num_points_of len = \<lfloor>double_product len 200\<rfloor> + 1"
    and "0 < dx"
proof -
  from assms(2) have p: "0 \<le> double_product len 200"
    by (simp add: double_product_nonneg)
  then have n: "num_points_of len = \<lfloor>double_product len 200\<rfloor> + 1"
    by (simp add: num_points_of_def py_int_nonneg)
  from p have "0 \<le> \<lfloor>double_product len 200\<rfloor>" by simp
  with n make_grid_Inr(1) [OF assms(1)] show two: "2 \<le> num_points_of len" by linarith
  from n show "num_points_of len = \<lfloor>double_product len 200\<rfloor> + 1" .
  from two assms(2) make_grid_Inr(3) [OF assms(1)] show "0 < dx" by simp
qed

lemma boundary_length:
  assumes "apply_boundary_conditions x supports d = Inr d'" and "length d = length x"
  shows "length d' = length x"
  using assms
  by (auto simp: apply_boundary_conditions_def split: if_splits sum.splits)

lemma table_rows:
  assumes "solve_beam props supports loads = Inr t"
    and "read_properties props = Inr (len, E, I)"
    and "make_grid len = Inr (x, dx)"
  shows "table_x t = x" and "n_rows t = replicate 5 (length x)"
proof -
  from assms(1) obtain len' E' I' x' dx' rs m0 d where
    rp: "read_properties props = Inr (len', E', I')"
    and mg: "make_grid len' = Inr (x', dx')"
    and bc: "apply_boundary_conditions x' supports
       (deflection_raw dx' (slope_of E' I' dx' (moment m0 dx' (shear x' rs loads)))) = Inr d"
    and t: "t = (if E' * I' = 0 \<and> x' \<noteq> [] then
            NonFinite x' (shear x' rs loads) (moment m0 dx' (shear x' rs loads))
          else Finite \<lparr>Position_m = x', Shear_Force_N = shear x' rs loads,
                 Bending_Moment_Nm = moment m0 dx' (shear x' rs loads),
                 Slope_rad = slope_of E' I' dx' (moment m0 dx' (shear x' rs loads)),
                 Deflection_m = d\<rparr>)"
    by (rule solve_beam_Inr_cases)
  from rp mg assms(2,3) have eqs: "x' = x"
    by simp
  from bc have "length d = length x'"
    by (rule boundary_length) simp
  with t show "table_x t = x" and "n_rows t = replicate 5 (length x)"
    by (auto simp: eqs n_rows_def numeral_eq_Suc)
qed

subsection \<open>Failures\<close>

lemma solve_beam_unfold:
  assumes "read_properties props = Inr (len, E, I)" and "make_grid len = Inr (x, dx)"
  shows "solve_beam props supports loads =
     (case dispatch_reactions len supports loads of
        Inl e \<Rightarrow> Inl e
      | Inr (rs, m0) \<Rightarrow>
          (case apply_boundary_conditions x supports
                  (deflection_raw dx (slope_of E I dx (moment m0 dx (shear x rs loads)))) of
             Inl e \<Rightarrow> Inl e
           | Inr d \<Rightarrow>
               Inr (if E * I = 0 \<and> x \<noteq> [] then
                      NonFinite x (shear x rs loads) (moment m0 dx (shear x rs loads))
                    else Finite \<lparr>Position_m = x, Shear_Force_N = shear x rs loads,
                      Bending_Moment_Nm = moment m0 dx (shear x rs loads),
                      Slope_rad = slope_of E I dx (moment m0 dx (shear x rs loads)),
                      Deflection_m = d\<rparr>)))"
  using assms by (simp add: solve_beam_def Let_def split: sum.splits prod.splits)

lemma solve_beam_dispatch_error:
  assumes "\<And>len. \<exists>e. dispatch_reactions len supports loads = Inl e"
  shows "\<exists>e. solve_beam props supports loads = Inl e"
proof (cases "read_properties props")
  case (Inl e)
  then show ?thesis by (simp add: solve_beam_def)
next
  case (Inr lei)
  then obtain len E I where rp: "read_properties props = Inr (len, E, I)"
    by (cases lei) auto
  show ?thesis
  proof (cases "make_grid len")
    case (Inl e)
    with rp show ?thesis by (simp add: solve_beam_def)
  next
    case (Inr xdx)
    then obtain x dx where mg: "make_grid len = Inr (x, dx)"
      by (cases xdx) auto
    from assms [of len] obtain e where "dispatch_reactions len supports loads = Inl e" ..
    then show ?thesis
      by (simp add: solve_beam_unfold [OF rp mg])
  qed
qed

lemma dispatch_unrecognised:
  assumes "mset (map stype supports) \<noteq> {#''pinned'', ''roller''#}"
    and "map stype supports \<noteq> [''fixed'']"
  shows "dispatch_reactions len supports loads =
     Inl (AnalysisError
       (if ''pinned'' \<notin> set (map stype supports) \<and> ''fixed'' \<notin> set (map stype supports)
        then UnstableStructure
        else UnsupportedCombination (sort (map stype supports))))"
  using assms
  by (simp add: dispatch_reactions_def is_ss_iff is_cantilever_iff support_types_of_def)

lemma ex_coincident_mset: "mset ex_coincident = {#pinned_at 0, roller_at 0#}"
  by (simp add: ex_coincident_def)

subsection \<open>Evaluating a solve\<close>

lemmas ex_eval =
  shear_def vadd_def where_ge_def moment_def cumsum_def slope_of_def deflection_raw_def
  F_total_def M_about_def

lemma ex_read_negative_E:
  "read_properties ex_props_negative_E = Inr (1 / 100, - 2, 83 / 1000000)"
  by (simp add: read_properties_def get_float_def ex_props_negative_E_def)

subsection \<open>Defaults\<close>

lemma get_float_default:
  "get_float (default_properties ++ props) ''length'' 10 = get_float props ''length'' 10"
  "get_float (default_properties ++ props) ''E'' 200000000000
     = get_float props ''E'' 200000000000"
  "get_float (default_properties ++ props) ''I'' (83 / 1000000)
     = get_float props ''I'' (83 / 1000000)"
  by (simp_all add: get_float_def default_properties_def map_add_def split: option.splits)

lemma read_properties_default:
  "read_properties (default_properties ++ props) = read_properties props"
  unfolding read_properties_def get_float_default ..

lemma replicate_5: "replicate 5 n = [n, n, n, n, n]"
  by (simp add: numeral_eq_Suc)

lemma read_properties_empty:
  "read_properties Map.empty = Inr (10, 200000000000, 83 / 1000000)"
  by (simp add: read_properties_def get_float_def)

lemma num_points_default: "num_points_of 10 = 2001"
  by (simp add: num_points_of_def double_product_ten py_int_def)

lemma make_grid_default:
  "make_grid 10 = Inr (map (\<lambda>i. real i * (1 / 200)) [0..<2001], 1 / 200)"
  by (simp add: make_grid_def num_points_default linspace0_def)

lemma shear_Nil: "shear [] rs loads = []"
  by (rule length_0_conv [THEN iffD1]) simp

lemma ex_read_negative_length:
  "read_properties ex_props_negative_length = Inr (- (3 / 400), 2, 3)"
  by (simp add: read_properties_def get_float_def ex_props_negative_length_def)

lemma ex_grid_negative_length: "make_grid (- (3 / 400)) = Inr ([], 3 / 400)"
  by (simp add: make_grid_def num_points_of_def double_product_negative py_int_def
      linspace0_def)

lemma boundary_isl:
  "isl (apply_boundary_conditions x supports d) = isl (apply_boundary_conditions x supports d')"
  by (simp add: apply_boundary_conditions_def split: sum.splits prod.splits)

lemma read_properties_stiffness:
  "read_properties (props(''E'' \<mapsto> PyNum e, ''I'' \<mapsto> PyNum i)) =
     (case get_float props ''length'' 10 of
        Inl _ \<Rightarrow> Inl (AnalysisError InvalidBeamProperty)
      | Inr len \<Rightarrow> Inr (len, e, i))"
  by (simp add: read_properties_def get_float_def split: sum.splits)

lemma solve_beam_isl_stiffness:
  "isl (solve_beam (props(''E'' \<mapsto> PyNum e, ''I'' \<mapsto> PyNum i)) supports loads)
     = isl (solve_beam (props(''E'' \<mapsto> PyNum e', ''I'' \<mapsto> PyNum i')) supports loads)"
proof (cases "get_float props ''length'' 10")
  case (Inl a)
  then show ?thesis
    by (simp add: solve_beam_def read_properties_stiffness)
next
  case (Inr len)
  note len = this
  show ?thesis
  proof (cases "make_grid len")
    case (Inl a)
    with len show ?thesis
      by (simp add: solve_beam_def read_properties_stiffness)
  next
    case (Inr xdx)
    then obtain x dx where mg: "make_grid len = Inr (x, dx)" by (cases xdx) auto
    have rp: "read_properties (props(''E'' \<mapsto> PyNum a, ''I'' \<mapsto> PyNum b)) = Inr (len, a, b)"
      for a b
      using len by (simp add: read_properties_stiffness)
    show ?thesis
    proof (cases "dispatch_reactions len supports loads")
      case (Inl a)
      then show ?thesis
        by (simp add: solve_beam_unfold [OF rp mg])
    next
      case (Inr rm)
      then obtain rs m0 where dr: "dispatch_reactions len supports loads = Inr (rs, m0)"
        by (cases rm) auto
      define V where "V = shear x rs loads"
      define M where "M = moment m0 dx V"
      have "isl (solve_beam (props(''E'' \<mapsto> PyNum a, ''I'' \<mapsto> PyNum b)) supports loads)
          = isl (apply_boundary_conditions x supports (deflection_raw dx (slope_of a b dx M)))"
        for a b
        by (simp add: solve_beam_unfold [OF rp mg] dr V_def M_def split: sum.splits)
      then show ?thesis
        using boundary_isl by simp
    qed
  qed
qed

subsection \<open>Scaling the loads\<close>

lemma resultant_scale [simp]:
  "resultant (scale_load c l) = c * resultant l"
  "resultant_position (scale_load c l) = resultant_position l"
  by (cases l; simp)+

lemma F_total_scale: "F_total (map (scale_load c) ls) = c * F_total ls"
  by (induction ls) (simp_all add: F_total_def algebra_simps)

lemma M_about_scale: "M_about a (map (scale_load c) ls) = c * M_about a ls"
  by (induction ls) (simp_all add: M_about_def algebra_simps)

lemma dispatch_scale:
  "dispatch_reactions len supports (map (scale_load c) loads)
     = map_sum id (scale_reactions c) (dispatch_reactions len supports loads)"
proof (cases "is_ss supports")
  case True
  then obtain p r where m: "mset supports = {#pinned_at p, roller_at r#}"
    by (auto simp: is_ss_mset)
  show ?thesis
    by (simp add: dispatch_ss [OF m] F_total_scale M_about_scale scale_reactions_def
        algebra_simps diff_divide_distrib)
next
  case False
  note nss = this
  show ?thesis
  proof (cases "is_cantilever supports")
    case True
    then obtain f where "supports = [fixed_at f]"
      by (auto simp: is_cantilever_fixed_at)
    then show ?thesis
      by (simp add: dispatch_cantilever F_total_scale M_about_scale scale_reactions_def)
  next
    case False
    with nss show ?thesis
      by (simp add: dispatch_reactions_def)
  qed
qed

lemma scale_length [simp]: "length (scale c vs) = length vs"
  by (simp add: scale_def)

lemma scale_nth: "i < length vs \<Longrightarrow> scale c vs ! i = c * vs ! i"
  by (simp add: scale_def)

lemma load_shear_scale: "load_shear xi (scale_load c l) = c * load_shear xi l"
  by (cases l) simp_all

lemma shear_scale:
  "shear x (map (\<lambda>(p, m). (p, c * m)) rs) (map (scale_load c) loads)
     = scale c (shear x rs loads)"
proof (rule nth_equalityI)
  show "length (shear x (map (\<lambda>(p, m). (p, c * m)) rs) (map (scale_load c) loads))
      = length (scale c (shear x rs loads))"
    by simp
next
  fix i
  assume "i < length (shear x (map (\<lambda>(p, m). (p, c * m)) rs) (map (scale_load c) loads))"
  then have i: "i < length x" by simp
  have r: "(\<Sum>rm\<leftarrow>map (\<lambda>(p, m). (p, c * m)) rs. reaction_shear (x ! i) rm)
      = c * (\<Sum>rm\<leftarrow>rs. reaction_shear (x ! i) rm)"
    by (induction rs) (auto simp: reaction_shear_def algebra_simps)
  have l: "(\<Sum>l\<leftarrow>map (scale_load c) loads. load_shear (x ! i) l)
      = c * (\<Sum>l\<leftarrow>loads. load_shear (x ! i) l)"
    by (induction loads) (simp_all add: load_shear_scale algebra_simps)
  from i show "shear x (map (\<lambda>(p, m). (p, c * m)) rs) (map (scale_load c) loads) ! i
      = scale c (shear x rs loads) ! i"
    by (simp only: shear_nth [OF i] scale_nth shear_length r l distrib_left)
qed

lemma cumsum_from_scale:
  "cumsum_from (c * a) (scale c vs) = scale c (cumsum_from a vs)"
  by (induction vs arbitrary: a) (simp_all add: scale_def flip: distrib_left)

lemma cumsum_scale: "cumsum (scale c vs) = scale c (cumsum vs)"
  using cumsum_from_scale [of c 0 vs] by (simp add: cumsum_def)

lemma moment_scale: "moment (c * m0) dx (scale c V) = scale c (moment m0 dx V)"
  by (rule nth_equalityI)
     (simp_all add: moment_def cumsum_scale vadd_nth scale_nth algebra_simps)

lemma slope_scale: "slope_of E I dx (scale c M) = scale c (slope_of E I dx M)"
proof -
  have "map (\<lambda>m. m / (E * I)) (scale c M) = scale c (map (\<lambda>m. m / (E * I)) M)"
    by (simp add: scale_def)
  then show ?thesis
    by (simp add: slope_of_def cumsum_scale) (simp add: scale_def)
qed

lemma raw_scale: "deflection_raw dx (scale c s) = scale c (deflection_raw dx s)"
  by (simp add: deflection_raw_def cumsum_scale) (simp add: scale_def)

lemma support_indices_bounds:
  assumes "support_indices x supports = Inr (ip, ir)"
  shows "ip < length x" "ir < length x"
  using assms
  by (auto simp: support_indices_def split: option.splits sum.splits if_splits
      dest!: argmin_least)

lemma correction_scale:
  assumes "length d = length x" and "ip < length x" and "ir < length x"
  shows "vsub (scale c d) (correction_line x (scale c d) ip ir)
     = scale c (vsub d (correction_line x d ip ir))"
proof (rule nth_equalityI)
  show "length (vsub (scale c d) (correction_line x (scale c d) ip ir))
      = length (scale c (vsub d (correction_line x d ip ir)))"
    by simp
next
  fix i
  assume "i < length (vsub (scale c d) (correction_line x (scale c d) ip ir))"
  with assms have i: "i < length x" "i < length d" by simp_all
  from assms have ii: "ip < length d" "ir < length d" by simp_all
  have "(c * d ! ir - c * d ! ip) / (x ! ir - x ! ip)
      = c * ((d ! ir - d ! ip) / (x ! ir - x ! ip))"
    by (simp add: right_diff_distrib)
  with i ii show "vsub (scale c d) (correction_line x (scale c d) ip ir) ! i
      = scale c (vsub d (correction_line x d ip ir)) ! i"
    by (simp add: vsub_def correction_line_nth scale_nth algebra_simps)
qed

lemma boundary_scale:
  assumes "length d = length x"
  shows "apply_boundary_conditions x supports (scale c d)
     = map_sum id (scale c) (apply_boundary_conditions x supports d)"
proof (cases "support_indices x supports")
  case (Inl e)
  then show ?thesis
    by (simp add: apply_boundary_conditions_def)
next
  case (Inr ii)
  then obtain ip ir where si: "support_indices x supports = Inr (ip, ir)"
    by (cases ii) auto
  from correction_scale [OF assms support_indices_bounds [OF si]] si show ?thesis
    by (simp add: apply_boundary_conditions_def)
qed

lemma solve_beam_scale:
  "solve_beam props supports (map (scale_load c) loads)
     = map_sum id (scale_table c) (solve_beam props supports loads)"
proof (cases "read_properties props")
  case (Inl e)
  then show ?thesis by (simp add: solve_beam_def)
next
  case (Inr lei)
  then obtain len E I where rp: "read_properties props = Inr (len, E, I)"
    by (cases lei) auto
  show ?thesis
  proof (cases "make_grid len")
    case (Inl e)
    with rp show ?thesis by (simp add: solve_beam_def)
  next
    case (Inr xdx)
    then obtain x dx where mg: "make_grid len = Inr (x, dx)"
      by (cases xdx) auto
    show ?thesis
    proof (cases "dispatch_reactions len supports loads")
      case (Inl e)
      then show ?thesis
        by (simp add: solve_beam_unfold [OF rp mg] dispatch_scale)
    next
      case (Inr rm)
      then obtain rs m0 where dr: "dispatch_reactions len supports loads = Inr (rs, m0)"
        by (cases rm) auto
      define V where "V = shear x rs loads"
      define M where "M = moment m0 dx V"
      define s where "s = slope_of E I dx M"
      define d where "d = deflection_raw dx s"
      have len_d: "length d = length x"
        by (simp add: d_def s_def M_def V_def)
      have dr': "dispatch_reactions len supports (map (scale_load c) loads)
          = Inr (map (\<lambda>(p, m). (p, c * m)) rs, c * m0)"
        by (simp add: dispatch_scale dr scale_reactions_def)
      have raw': "deflection_raw dx (scale c s) = scale c d"
        by (simp only: raw_scale d_def)
      have cols: "shear x (map (\<lambda>(p, m). (p, c * m)) rs) (map (scale_load c) loads) = scale c V"
        "moment (c * m0) dx (scale c V) = scale c M"
        "slope_of E I dx (scale c M) = scale c s"
        by (simp_all only: shear_scale moment_scale slope_scale V_def M_def s_def)
      note l = solve_beam_unfold [OF rp mg, of supports "map (scale_load c) loads",
          unfolded dr' sum.case prod.case cols raw']
      note r = solve_beam_unfold [OF rp mg, of supports loads,
          unfolded dr sum.case prod.case V_def [symmetric] M_def [symmetric]
            s_def [symmetric] d_def [symmetric]]
      show ?thesis
      proof (cases "apply_boundary_conditions x supports d")
        case (Inl e)
        with boundary_scale [OF len_d, of supports c] show ?thesis
          by (simp add: l r)
      next
        case (Inr d')
        with boundary_scale [OF len_d, of supports c] show ?thesis
          by (simp add: l r)
      qed
    qed
  qed
qed

subsection \<open>The order of the loads\<close>

lemma sum_list_mset_cong:
  "mset xs = mset ys \<Longrightarrow> (\<Sum>x\<leftarrow>xs. f x) = (\<Sum>y\<leftarrow>ys. f y)" for f :: "'a \<Rightarrow> real"
proof -
  assume "mset xs = mset ys"
  then have "sum_mset (image_mset f (mset xs)) = sum_mset (image_mset f (mset ys))"
    by simp
  then show ?thesis
    by (simp flip: mset_map add: sum_mset_sum_list)
qed

lemma dispatch_perm:
  assumes "mset loads' = mset loads"
  shows "dispatch_reactions len supports loads' = dispatch_reactions len supports loads"
proof -
  from assms have "F_total loads' = F_total loads" "\<And>a. M_about a loads' = M_about a loads"
    by (simp_all only: F_total_def M_about_def sum_list_mset_cong [OF assms])
  then have eq: "\<And>ref. load_loop ref loads' (0, 0) = load_loop ref loads (0, 0)"
    by (simp only: load_loop_sums)
  show ?thesis
    unfolding dispatch_reactions_def calculate_reactions_simply_supported_def
      calculate_reactions_cantilever_def eq ..
qed

lemma shear_perm:
  assumes "mset loads' = mset loads"
  shows "shear x rs loads' = shear x rs loads"
  by (rule nth_equalityI) (simp_all add: shear_nth sum_list_mset_cong [OF assms])

lemma solve_beam_perm:
  assumes "mset loads' = mset loads"
  shows "solve_beam props supports loads' = solve_beam props supports loads"
  unfolding solve_beam_def dispatch_perm [OF assms] shear_perm [OF assms] ..

lemma ex_solve_two_loads:
  "solve_beam ex_props ex_cantilever ex_two_loads
     = Inr (Finite \<lparr>Position_m = [0, 1 / 200, 1 / 100], Shear_Force_N = [24, 12, 0],
          Bending_Moment_Nm = [3 / 10, 9 / 25, 9 / 25],
          Slope_rad = [1 / 4000, 11 / 20000, 17 / 20000],
          Deflection_m = [1 / 800000, 1 / 250000, 33 / 4000000]\<rparr>)"
  by (simp add: solve_beam_unfold [OF ex_read ex_grid] ex_cantilever_def
      dispatch_cantilever boundary_cantilever ex_two_loads_def ex_eval)

lemma ex_solve_two_loads_doubled:
  "solve_beam ex_props ex_cantilever ex_two_loads_doubled
     = Inr (Finite \<lparr>Position_m = [0, 1 / 200, 1 / 100], Shear_Force_N = [36, 12, 0],
          Bending_Moment_Nm = [21 / 50, 12 / 25, 12 / 25],
          Slope_rad = [7 / 20000, 3 / 4000, 23 / 20000],
          Deflection_m = [7 / 4000000, 11 / 2000000, 9 / 800000]\<rparr>)"
  by (simp add: solve_beam_unfold [OF ex_read ex_grid] ex_cantilever_def
      dispatch_cantilever boundary_cantilever ex_two_loads_doubled_def ex_eval)

section \<open>The claims\<close>

subsection \<open>Reactions of a simply supported beam\<close>

text \<open>
  Claim C1. For one pinned support at \<open>p\<close> and one roller at \<open>r\<close> with \<open>r - p \<noteq> 0\<close>
  the reaction solver (and the dispatch of \<^verbatim>\<open>solve_beam\<close>, which calls it for this
  pattern) returns \<open>R_roller = - M_about p / (r - p)\<close> and \<open>R_pin = - F_total - R_roller\<close>
  with initial moment \<open>0\<close>; the reactions and the load resultants sum to zero, and so do
  their moments about every point \<open>a\<close>.
\<close>

theorem reactions_simply_supported:
  assumes "mset supports = {#pinned_at p, roller_at r#}" and "r - p \<noteq> 0"
  shows "let R_roller = - M_about p loads / (r - p);
             R_pin = - F_total loads - R_roller
         in calculate_reactions_simply_supported len supports loads
              = Inr ([(p, R_pin), (r, R_roller)], 0)
            \<and> dispatch_reactions len supports loads
              = calculate_reactions_simply_supported len supports loads
            \<and> R_pin + R_roller + F_total loads = 0
            \<and> (\<forall>a. R_pin * (p - a) + R_roller * (r - a) + M_about a loads = 0)"
proof -
  define R_roller where "R_roller = - M_about p loads / (r - p)"
  define R_pin where "R_pin = - F_total loads - R_roller"
  note ss = next_position_ss [OF assms(1)]
  have calc: "calculate_reactions_simply_supported len supports loads
      = Inr ([(p, R_pin), (r, R_roller)], 0)"
    using assms(2)
    by (simp add: calculate_reactions_simply_supported_def ss load_loop_sums
        R_roller_def R_pin_def)
  have disp: "dispatch_reactions len supports loads
      = calculate_reactions_simply_supported len supports loads"
    by (simp add: dispatch_reactions_def ss)
  have force: "R_pin + R_roller + F_total loads = 0"
    by (simp add: R_pin_def)
  have span: "R_roller * (r - p) = - M_about p loads"
    using assms(2) by (simp add: R_roller_def)
  have mom: "R_pin * (p - a) + R_roller * (r - a) + M_about a loads = 0" for a
  proof -
    have "R_pin * (p - a) + R_roller * (r - a) + M_about a loads
        = R_roller * (r - p) + M_about p loads"
      by (simp add: R_pin_def M_about_shift [of a loads p] algebra_simps)
    with span show ?thesis by simp
  qed
  from calc disp force mom show ?thesis
    by (simp add: Let_def R_roller_def R_pin_def)
qed

theorem reactions_simply_supported_witness:
  "mset ex_ss = {#pinned_at 0, roller_at (1 / 100)#} \<and> (1 / 100 - 0 \<noteq> (0::real))
   \<and> calculate_reactions_simply_supported (1 / 100) ex_ss ex_loads
       = Inr ([(0, 6), (1 / 100, 6)], 0)"
  using reactions_simply_supported [of ex_ss 0 "1 / 100" ex_loads "1 / 100"]
  by (simp add: ex_ss_def ex_loads_def M_about_def F_total_def Let_def)

subsection \<open>Shear by superposition\<close>

text \<open>
  Claim C3. At every grid position \<open>x ! i\<close> the shear column of a returned table is the
  sum of one independent contribution per reaction (its magnitude once \<open>x ! i\<close> has
  reached its position) and one per load (a point load's magnitude once \<open>x ! i\<close> has
  reached its position; a distributed load's \<open>m * (x ! i - start)\<close> inside the span and
  \<open>m * (end - start)\<close> from its end on).
\<close>

theorem shear_superposition:
  assumes "solve_beam props supports loads = Inr t"
    and "read_properties props = Inr (len, E, I)"
    and "make_grid len = Inr (x, dx)"
    and "dispatch_reactions len supports loads = Inr (rs, m0)"
    and "i < length x"
  shows "table_x t = x \<and>
         table_V t ! i
           = (\<Sum>rm\<leftarrow>rs. reaction_shear (x ! i) rm) + (\<Sum>l\<leftarrow>loads. load_shear (x ! i) l)"
  using table_columns(1,2) [OF assms(1-4)] assms(5) by (simp add: shear_nth)

theorem shear_superposition_witness:
  "solve_beam ex_props ex_ss ex_loads
     = Inr (Finite \<lparr>Position_m = [0, 1 / 200, 1 / 100], Shear_Force_N = [6, - 6, 0],
          Bending_Moment_Nm = [3 / 100, 0, 0],
          Slope_rad = [1 / 40000, 1 / 40000, 1 / 40000],
          Deflection_m = [0, 0, 0]\<rparr>)
   \<and> read_properties ex_props = Inr (1 / 100, 2, 3)
   \<and> make_grid (1 / 100) = Inr ([0, 1 / 200, 1 / 100], 1 / 200)
   \<and> dispatch_reactions (1 / 100) ex_ss ex_loads = Inr ([(0, 6), (1 / 100, 6)], 0)
   \<and> (1::nat) < length [0, 1 / 200, 1 / 100 :: real]
   \<and> [6, - 6, 0 :: real] ! 1
       = (\<Sum>rm\<leftarrow>[(0, 6), (1 / 100, 6)]. reaction_shear (1 / 200) rm)
         + (\<Sum>l\<leftarrow>ex_loads. load_shear (1 / 200) l)"
  using shear_superposition [OF ex_solve ex_read ex_grid ex_dispatch, of 1]
    ex_solve ex_read ex_grid ex_dispatch
  by simp

subsection \<open>Moment, slope and raw deflection as running sums\<close>

text \<open>
  Claim C2. In every returned table the moment at sample \<open>i\<close> is the initial moment
  (\<open>0\<close> for a simply supported beam, the fixed-end reaction moment for a cantilever)
  plus \<open>dx\<close> times the sum of the shear samples up to \<open>i\<close>; the slope is \<open>dx\<close> times
  the sum of \<open>M / (E * I)\<close> up to \<open>i\<close>; and the uncorrected deflection, which the
  pipeline computes from the slope column, is \<open>dx\<close> times the sum of the slope samples up
  to \<open>i\<close>.
\<close>

theorem integration_series:
  assumes "solve_beam props supports loads = Inr (Finite df)"
    and "read_properties props = Inr (len, E, I)"
    and "make_grid len = Inr (x, dx)"
    and "i < length x"
  shows "Bending_Moment_Nm df ! i
           = initial_moment_of supports loads + dx * (\<Sum>j\<le>i. Shear_Force_N df ! j)
       \<and> Slope_rad df ! i = dx * (\<Sum>j\<le>i. Bending_Moment_Nm df ! j / (E * I))
       \<and> deflection_raw dx (Slope_rad df) ! i = dx * (\<Sum>j\<le>i. Slope_rad df ! j)"
proof -
  from assms(1) obtain len' E' I' x' dx' rs m0 d where
    rp: "read_properties props = Inr (len', E', I')"
    and mg: "make_grid len' = Inr (x', dx')"
    and dr: "dispatch_reactions len' supports loads = Inr (rs, m0)"
    and t: "Finite df = (if E' * I' = 0 \<and> x' \<noteq> [] then
            NonFinite x' (shear x' rs loads) (moment m0 dx' (shear x' rs loads))
          else Finite \<lparr>Position_m = x', Shear_Force_N = shear x' rs loads,
                 Bending_Moment_Nm = moment m0 dx' (shear x' rs loads),
                 Slope_rad = slope_of E' I' dx' (moment m0 dx' (shear x' rs loads)),
                 Deflection_m = d\<rparr>)"
    by (rule solve_beam_Inr_cases)
  from rp mg assms(2,3) have eqs: "len' = len" "E' = E" "I' = I" "x' = x" "dx' = dx"
    by simp_all
  define V where "V = shear x rs loads"
  define M where "M = moment m0 dx V"
  define s where "s = slope_of E I dx M"
  from t have df: "Shear_Force_N df = V" "Bending_Moment_Nm df = M" "Slope_rad df = s"
    by (auto simp: eqs V_def M_def s_def split: if_splits)
  have lens: "length V = length x" "length M = length x" "length s = length x"
    by (simp_all add: V_def M_def s_def)
  from assms(4) lens have M_i: "M ! i = m0 + dx * (\<Sum>j\<le>i. V ! j)"
    by (simp add: M_def moment_nth)
  from assms(4) lens have s_i: "s ! i = dx * (\<Sum>j\<le>i. M ! j / (E * I))"
    by (simp add: s_def slope_of_nth)
  from assms(4) lens have d_i: "deflection_raw dx s ! i = dx * (\<Sum>j\<le>i. s ! j)"
    by (simp add: deflection_raw_nth)
  from dr have "m0 = initial_moment_of supports loads"
    by (rule initial_moment_of_dispatch)
  with M_i s_i d_i show ?thesis
    by (simp add: df)
qed

theorem integration_series_witness:
  "solve_beam ex_props ex_cantilever ex_loads
     = Inr (Finite \<lparr>Position_m = [0, 1 / 200, 1 / 100], Shear_Force_N = [12, 0, 0],
          Bending_Moment_Nm = [3 / 25, 3 / 25, 3 / 25],
          Slope_rad = [1 / 10000, 1 / 5000, 3 / 10000],
          Deflection_m = [1 / 2000000, 3 / 2000000, 3 / 1000000]\<rparr>)
   \<and> read_properties ex_props = Inr (1 / 100, 2, 3)
   \<and> make_grid (1 / 100) = Inr ([0, 1 / 200, 1 / 100], 1 / 200)
   \<and> (2::nat) < length [0, 1 / 200, 1 / 100 :: real]
   \<and> initial_moment_of ex_cantilever ex_loads = 3 / 50
   \<and> [3 / 25, 3 / 25, 3 / 25 :: real] ! 2
       = 3 / 50 + 1 / 200 * (\<Sum>j\<le>2. [12, 0, 0 :: real] ! j)
   \<and> [1 / 10000, 1 / 5000, 3 / 10000 :: real] ! 2
       = 1 / 200 * (\<Sum>j\<le>2. [3 / 25, 3 / 25, 3 / 25 :: real] ! j / (2 * 3))
   \<and> deflection_raw (1 / 200) [1 / 10000, 1 / 5000, 3 / 10000] ! 2
       = 1 / 200 * (\<Sum>j\<le>2. [1 / 10000, 1 / 5000, 3 / 10000 :: real] ! j)"
proof -
  have m0: "initial_moment_of ex_cantilever ex_loads = 3 / 50"
    by (simp add: initial_moment_of_def ex_cantilever_def fixed_at_def ex_loads_def M_about_def)
  from integration_series [OF ex_solve_cantilever ex_read ex_grid, of 2]
    ex_solve_cantilever ex_read ex_grid m0
  show ?thesis by simp
qed

subsection \<open>The boundary-condition correction\<close>

text \<open>
  Claim C4. For one pinned support at \<open>p\<close> and one roller at \<open>r\<close>, the deflection
  column of a returned table is the raw double-integration result minus the straight line
  through \<open>(x ! idx_pin, raw ! idx_pin)\<close> and \<open>(x ! idx_roller, raw ! idx_roller)\<close>, where
  \<open>idx_pin\<close> and \<open>idx_roller\<close> are the grid indices \<^verbatim>\<open>argmin\<close> finds nearest to
  \<open>p\<close> and \<open>r\<close>; the deflection is exactly zero at both indices.
\<close>

theorem deflection_correction:
  assumes "solve_beam props supports loads = Inr (Finite df)"
    and "mset supports = {#pinned_at p, roller_at r#}"
    and "read_properties props = Inr (len, E, I)"
    and "make_grid len = Inr (x, dx)"
  shows "\<exists>idx_pin idx_roller.
           argmin (map (\<lambda>xi. \<bar>xi - p\<bar>) x) = Inr idx_pin
         \<and> argmin (map (\<lambda>xi. \<bar>xi - r\<bar>) x) = Inr idx_roller
         \<and> idx_pin < length x \<and> idx_roller < length x
         \<and> (\<forall>j<length x. \<bar>x ! idx_pin - p\<bar> \<le> \<bar>x ! j - p\<bar>)
         \<and> (\<forall>j<length x. \<bar>x ! idx_roller - r\<bar> \<le> \<bar>x ! j - r\<bar>)
         \<and> x ! idx_roller \<noteq> x ! idx_pin
         \<and> (let raw = deflection_raw dx (Slope_rad df)
            in \<forall>i<length x.
                 Deflection_m df ! i
                   = raw ! i
                     - ((raw ! idx_roller - raw ! idx_pin) / (x ! idx_roller - x ! idx_pin)
                          * (x ! i - x ! idx_pin) + raw ! idx_pin))
         \<and> Deflection_m df ! idx_pin = 0
         \<and> Deflection_m df ! idx_roller = 0"
proof -
  from assms(1) obtain len' E' I' x' dx' rs m0 d where
    rp: "read_properties props = Inr (len', E', I')"
    and mg: "make_grid len' = Inr (x', dx')"
    and bc: "apply_boundary_conditions x' supports
       (deflection_raw dx' (slope_of E' I' dx' (moment m0 dx' (shear x' rs loads)))) = Inr d"
    and t: "Finite df = (if E' * I' = 0 \<and> x' \<noteq> [] then
            NonFinite x' (shear x' rs loads) (moment m0 dx' (shear x' rs loads))
          else Finite \<lparr>Position_m = x', Shear_Force_N = shear x' rs loads,
                 Bending_Moment_Nm = moment m0 dx' (shear x' rs loads),
                 Slope_rad = slope_of E' I' dx' (moment m0 dx' (shear x' rs loads)),
                 Deflection_m = d\<rparr>)"
    by (rule solve_beam_Inr_cases)
  from rp mg assms(3,4) have eqs: "len' = len" "E' = E" "I' = I" "x' = x" "dx' = dx"
    by simp_all
  define s where "s = slope_of E I dx (moment m0 dx (shear x rs loads))"
  define raw where "raw = deflection_raw dx s"
  from t have df: "Slope_rad df = s" "Deflection_m df = d"
    by (auto simp: eqs s_def split: if_splits)
  have raw_len: "length raw = length x"
    by (simp add: raw_def s_def)
  from bc have bc': "apply_boundary_conditions x supports raw = Inr d"
    by (simp add: eqs raw_def s_def)
  from assms(2) bc' obtain ip ir where si: "support_indices x supports = Inr (ip, ir)"
    and d: "d = vsub raw (correction_line x raw ip ir)"
    by (rule boundary_ss)
  note am = support_indices_ss [OF assms(2) si]
  from argmin_least [OF am(1)] have ip: "ip < length x"
    by simp
  from argmin_least [OF am(1)] ip
  have ip_near: "\<forall>j<length x. \<bar>x ! ip - p\<bar> \<le> \<bar>x ! j - p\<bar>"
    by auto
  from argmin_least [OF am(2)] have ir: "ir < length x"
    by simp
  from argmin_least [OF am(2)] ir
  have ir_near: "\<forall>j<length x. \<bar>x ! ir - r\<bar> \<le> \<bar>x ! j - r\<bar>"
    by auto
  have d_i: "d ! i = raw ! i - ((raw ! ir - raw ! ip) / (x ! ir - x ! ip)
      * (x ! i - x ! ip) + raw ! ip)" if "i < length x" for i
    using that raw_len by (simp add: d vsub_def correction_line_nth)
  have zero_pin: "d ! ip = 0"
    using d_i [OF ip] by simp
  have zero_roller: "d ! ir = 0"
    using d_i [OF ir] am(3) by simp
  from am ip ir ip_near ir_near d_i zero_pin zero_roller show ?thesis
    unfolding df raw_def [symmetric] Let_def by blast
qed

theorem deflection_correction_witness:
  "solve_beam ex_props ex_ss ex_loads
     = Inr (Finite \<lparr>Position_m = [0, 1 / 200, 1 / 100], Shear_Force_N = [6, - 6, 0],
          Bending_Moment_Nm = [3 / 100, 0, 0],
          Slope_rad = [1 / 40000, 1 / 40000, 1 / 40000],
          Deflection_m = [0, 0, 0]\<rparr>)
   \<and> mset ex_ss = {#pinned_at 0, roller_at (1 / 100)#}
   \<and> read_properties ex_props = Inr (1 / 100, 2, 3)
   \<and> make_grid (1 / 100) = Inr ([0, 1 / 200, 1 / 100], 1 / 200)
   \<and> argmin (map (\<lambda>xi. \<bar>xi - 0\<bar>) [0, 1 / 200, 1 / 100]) = Inr 0
   \<and> argmin (map (\<lambda>xi. \<bar>xi - 1 / 100\<bar>) [0, 1 / 200, 1 / 100]) = Inr 2
   \<and> [0, 0, 0 :: real] ! 2 = 0"
  using deflection_correction [OF ex_solve ex_mset ex_read ex_grid]
    ex_solve ex_mset ex_read ex_grid
  by (simp add: argmin_def)

subsection \<open>The shape of the result table\<close>

text \<open>
  Claim C6, as stated, fails: a negative length is accepted, and \<^verbatim>\<open>int\<close> truncates
  towards zero. For the length \<open>- 0.0075\<close> the product with \<open>200\<close> is \<open>- 1.5\<close>, so that
  \<open>\<lfloor>length * 200\<rfloor> + 1 = - 1\<close>, while the code takes \<open>int(- 1.5) + 1 = 0\<close> samples and
  returns, for a cantilever, a table with no row: no row is at position \<open>0\<close> or at
  \<open>length\<close>.
\<close>

theorem negative_length_counterexample:
  "solve_beam ex_props_negative_length ex_cantilever ex_loads
     = Inr (Finite \<lparr>Position_m = [], Shear_Force_N = [], Bending_Moment_Nm = [],
          Slope_rad = [], Deflection_m = []\<rparr>)
   \<and> read_properties ex_props_negative_length = Inr (- (3 / 400), 2, 3)
   \<and> \<lfloor>double_product (- (3 / 400)) 200\<rfloor> + 1 = - 1
   \<and> \<lfloor>- (3 / 400) * 200 :: real\<rfloor> + 1 = - 1"
proof -
  have "solve_beam ex_props_negative_length ex_cantilever ex_loads
     = Inr (Finite \<lparr>Position_m = [], Shear_Force_N = [], Bending_Moment_Nm = [],
          Slope_rad = [], Deflection_m = []\<rparr>)"
    by (simp add: solve_beam_unfold [OF ex_read_negative_length ex_grid_negative_length]
        ex_cantilever_def dispatch_cantilever boundary_cantilever shear_Nil moment_def
        slope_of_def deflection_raw_def cumsum_def vadd_def)
  then show ?thesis
    by (simp add: ex_read_negative_length double_product_negative)
qed

text \<open>
  Claim C6, amended. For a beam of positive length, a returned table has
  \<open>N = \<lfloor>length * 200\<rfloor> + 1\<close> rows in each of its five columns, the product being the
  double-precision product the code computes; its positions are the uniform grid \<open>i * dx\<close>
  with \<open>dx = length / (N - 1)\<close>, from \<open>0\<close> to \<open>length\<close> inclusive, strictly ascending.
\<close>

theorem result_table_grid:
  assumes "solve_beam props supports loads = Inr t"
    and "read_properties props = Inr (len, E, I)"
    and "0 < len"
  shows "let N = nat (\<lfloor>double_product len 200\<rfloor> + 1); dx = len / real (N - 1)
         in 2 \<le> N
          \<and> n_rows t = replicate 5 N
          \<and> (\<forall>i<N. table_x t ! i = real i * dx)
          \<and> table_x t ! 0 = 0
          \<and> table_x t ! (N - 1) = len
          \<and> sorted_wrt (<) (table_x t)"
proof -
  from assms(1,2) obtain x dx where mg: "make_grid len = Inr (x, dx)"
    by (auto elim!: solve_beam_Inr_cases)
  define N where "N = nat (\<lfloor>double_product len 200\<rfloor> + 1)"
  note pos = make_grid_positive [OF mg assms(3)]
  from pos(1,2) have k: "1 \<le> \<lfloor>double_product len 200\<rfloor>"
    by linarith
  from pos(2) have N1: "nat (num_points_of len) = N"
    by (simp add: N_def)
  from k have N2: "2 \<le> N"
    unfolding N_def by linarith
  from k have "N - 1 = nat \<lfloor>double_product len 200\<rfloor>"
    unfolding N_def by linarith
  with k have "real (N - 1) = real_of_int \<lfloor>double_product len 200\<rfloor>"
    by simp
  with pos(2) have "real_of_int (num_points_of len - 1) = real (N - 1)"
    by simp
  with make_grid_Inr(3) [OF mg] have dx: "dx = len / real (N - 1)"
    by simp
  from make_grid_Inr(4) [OF mg] N1 have x: "x = map (\<lambda>i. real i * dx) [0..<N]"
    by simp
  note tr = table_rows [OF assms(1,2) mg]
  have len_x: "length x = N" by (simp add: x)
  have nth: "x ! i = real i * dx" if "i < N" for i
    using that by (simp add: x)
  have first: "x ! 0 = 0"
    using N2 by (simp add: nth)
  have last: "x ! (N - 1) = len"
    using N2 pos(3) by (simp add: nth dx)
  have "x ! i < x ! j" if "i < j" "j < N" for i j
    using that pos(3) by (simp add: nth)
  then have "sorted_wrt (<) x"
    by (simp add: sorted_wrt_iff_nth_less len_x)
  with N2 tr len_x nth first last show ?thesis
    unfolding Let_def N_def [symmetric] dx [symmetric] by simp
qed

theorem result_table_grid_witness:
  "solve_beam ex_props ex_ss ex_loads
     = Inr (Finite \<lparr>Position_m = [0, 1 / 200, 1 / 100], Shear_Force_N = [6, - 6, 0],
          Bending_Moment_Nm = [3 / 100, 0, 0],
          Slope_rad = [1 / 40000, 1 / 40000, 1 / 40000],
          Deflection_m = [0, 0, 0]\<rparr>)
   \<and> read_properties ex_props = Inr (1 / 100, 2, 3)
   \<and> (0::real) < 1 / 100
   \<and> nat (\<lfloor>double_product (1 / 100) 200\<rfloor> + 1) = 3
   \<and> sorted_wrt (<) [0, 1 / 200, 1 / 100 :: real]"
  using result_table_grid [OF ex_solve ex_read] ex_solve ex_read
  by (simp add: double_product_hundredth)

subsection \<open>Unrecognised support patterns\<close>

text \<open>
  Claim C8. When the support types are neither one pinned plus one roller nor a single
  fixed support, \<^verbatim>\<open>solve_beam\<close> always ends in an error, and once the properties
  are read and the grid is built that error is the one of the dispatch, raised in place of
  any reaction computation: "unstable" when no support is pinned or fixed, "unsupported
  combination" (with the sorted list of types) otherwise.
\<close>

theorem unrecognised_supports_raise:
  assumes "mset (map stype supports) \<noteq> {#''pinned'', ''roller''#}"
    and "map stype supports \<noteq> [''fixed'']"
  shows "(\<exists>e. solve_beam props supports loads = Inl e)
       \<and> (read_properties props = Inr (len, E, I) \<longrightarrow> make_grid len = Inr (x, dx) \<longrightarrow>
            solve_beam props supports loads =
              Inl (AnalysisError
                (if ''pinned'' \<notin> set (map stype supports)
                    \<and> ''fixed'' \<notin> set (map stype supports)
                 then UnstableStructure
                 else UnsupportedCombination (sort (map stype supports)))))"
proof -
  note d = dispatch_unrecognised [OF assms]
  have "\<exists>e. solve_beam props supports loads = Inl e"
    by (rule solve_beam_dispatch_error) (simp add: d)
  moreover have "solve_beam props supports loads =
      Inl (AnalysisError
        (if ''pinned'' \<notin> set (map stype supports) \<and> ''fixed'' \<notin> set (map stype supports)
         then UnstableStructure
         else UnsupportedCombination (sort (map stype supports))))"
    if "read_properties props = Inr (len, E, I)" "make_grid len = Inr (x, dx)"
    by (simp only: solve_beam_unfold [OF that] d sum.case)
  ultimately show ?thesis by blast
qed

theorem unrecognised_supports_raise_witness:
  "mset (map stype ex_rollers) \<noteq> {#''pinned'', ''roller''#}
   \<and> map stype ex_rollers \<noteq> [''fixed'']
   \<and> read_properties ex_props = Inr (1 / 100, 2, 3)
   \<and> make_grid (1 / 100) = Inr ([0, 1 / 200, 1 / 100], 1 / 200)
   \<and> solve_beam ex_props ex_rollers ex_loads = Inl (AnalysisError UnstableStructure)"
proof -
  have a: "mset (map stype ex_rollers) \<noteq> {#''pinned'', ''roller''#}"
    by (simp add: ex_rollers_def roller_at_def)
  have b: "map stype ex_rollers \<noteq> [''fixed'']"
    by (simp add: ex_rollers_def roller_at_def)
  from unrecognised_supports_raise [OF a b, of ex_props ex_loads "1 / 100" 2 3
      "[0, 1 / 200, 1 / 100]" "1 / 200"] a b ex_read ex_grid
  show ?thesis
    by (simp add: ex_rollers_def roller_at_def)
qed

subsection \<open>Coincident supports\<close>

text \<open>
  Claim C7. With one pinned support and one roller at the same position, \<^verbatim>\<open>solve_beam\<close>
  always ends in an error and returns no table; the reaction solver raises "supports cannot
  be at the same position", and that is the error of \<^verbatim>\<open>solve_beam\<close> once the
  properties are read and the grid is built. Whenever a table is returned for a simply
  supported beam, both divisors were non-zero: the span \<open>r - p\<close> in the reaction solver and
  the distance of the two support grid positions in the correction line.
\<close>

theorem coincident_supports_raise:
  assumes "mset supports = {#pinned_at p, roller_at r#}"
  shows "(r - p = 0 \<longrightarrow>
            (\<exists>e. solve_beam props supports loads = Inl e)
          \<and> calculate_reactions_simply_supported len supports loads
               = Inl (AnalysisError SupportsSamePosition)
          \<and> (read_properties props = Inr (len, E, I) \<longrightarrow> make_grid len = Inr (x, dx) \<longrightarrow>
               solve_beam props supports loads = Inl (AnalysisError SupportsSamePosition)))
       \<and> (\<forall>t. solve_beam props supports loads = Inr t \<longrightarrow>
            r - p \<noteq> 0
          \<and> (\<exists>idx_pin idx_roller.
                 support_indices (table_x t) supports = Inr (idx_pin, idx_roller)
               \<and> table_x t ! idx_roller - table_x t ! idx_pin \<noteq> 0))"
proof -
  note d = dispatch_ss [OF assms]
  have e: "\<exists>e. solve_beam props supports loads = Inl e" if "r - p = 0"
    by (rule solve_beam_dispatch_error) (use that in \<open>simp add: d\<close>)
  have c: "calculate_reactions_simply_supported len supports loads
      = Inl (AnalysisError SupportsSamePosition)" if "r - p = 0"
    using that calculate_ss_coincident [of supports p] assms by simp
  have s: "solve_beam props supports loads = Inl (AnalysisError SupportsSamePosition)"
    if "r - p = 0" "read_properties props = Inr (len, E, I)" "make_grid len = Inr (x, dx)"
    using that(1) by (simp add: solve_beam_unfold [OF that(2,3)] d)
  have r: "r - p \<noteq> 0
      \<and> (\<exists>idx_pin idx_roller.
             support_indices (table_x t) supports = Inr (idx_pin, idx_roller)
           \<and> table_x t ! idx_roller - table_x t ! idx_pin \<noteq> 0)"
    if t: "solve_beam props supports loads = Inr t" for t
  proof -
    from t obtain len' E' I' x' dx' rs m0 d' where
      rp: "read_properties props = Inr (len', E', I')"
      and mg: "make_grid len' = Inr (x', dx')"
      and dr: "dispatch_reactions len' supports loads = Inr (rs, m0)"
      and bc: "apply_boundary_conditions x' supports
         (deflection_raw dx' (slope_of E' I' dx' (moment m0 dx' (shear x' rs loads)))) = Inr d'"
      by (rule solve_beam_Inr_cases)
    from e t have rp_ne: "r - p \<noteq> 0" by auto
    from assms bc obtain ip ir where si: "support_indices x' supports = Inr (ip, ir)"
      by (rule boundary_ss)
    from support_indices_ss(3) [OF assms si] have "x' ! ir - x' ! ip \<noteq> 0" by simp
    with rp_ne si table_rows(1) [OF t rp mg] show ?thesis by auto
  qed
  from e c s r show ?thesis by blast
qed

theorem coincident_supports_raise_witness:
  "mset ex_coincident = {#pinned_at 0, roller_at 0#}
   \<and> (0 - 0 = (0::real))
   \<and> read_properties ex_props = Inr (1 / 100, 2, 3)
   \<and> make_grid (1 / 100) = Inr ([0, 1 / 200, 1 / 100], 1 / 200)
   \<and> solve_beam ex_props ex_coincident ex_loads = Inl (AnalysisError SupportsSamePosition)
   \<and> mset ex_ss = {#pinned_at 0, roller_at (1 / 100)#}
   \<and> solve_beam ex_props ex_ss ex_loads
     = Inr (Finite \<lparr>Position_m = [0, 1 / 200, 1 / 100], Shear_Force_N = [6, - 6, 0],
          Bending_Moment_Nm = [3 / 100, 0, 0],
          Slope_rad = [1 / 40000, 1 / 40000, 1 / 40000],
          Deflection_m = [0, 0, 0]\<rparr>)
   \<and> support_indices [0, 1 / 200, 1 / 100] ex_ss = Inr (0, 2)
   \<and> [0, 1 / 200, 1 / 100 :: real] ! 2 - [0, 1 / 200, 1 / 100] ! 0 \<noteq> 0"
  using coincident_supports_raise [OF ex_coincident_mset, of ex_props ex_loads "1 / 100" 2 3
      "[0, 1 / 200, 1 / 100]" "1 / 200"]
    coincident_supports_raise [OF ex_mset, of ex_props ex_loads]
    ex_coincident_mset ex_mset ex_read ex_grid ex_solve ex_indices
  by simp

subsection \<open>Invalid beam properties\<close>

text \<open>
  Claim C5, as stated, fails: with \<open>E = - 2\<close> and no entry for \<open>I\<close> the solve returns a
  table, computed with the stiffness \<open>- 2 * 8.3e-5\<close>.
\<close>

theorem non_positive_stiffness_counterexample:
  "solve_beam ex_props_negative_E ex_cantilever ex_loads
     = Inr (Finite \<lparr>Position_m = [0, 1 / 200, 1 / 100], Shear_Force_N = [12, 0, 0],
          Bending_Moment_Nm = [3 / 25, 3 / 25, 3 / 25],
          Slope_rad = [- (300 / 83), - (600 / 83), - (900 / 83)],
          Deflection_m = [- (3 / 166), - (9 / 166), - (9 / 83)]\<rparr>)"
  by (simp add: solve_beam_unfold [OF ex_read_negative_E ex_grid] ex_cantilever_def
      dispatch_cantilever boundary_cantilever ex_loads_def ex_eval)

text \<open>
  Claim C5, amended. \<^verbatim>\<open>solve_beam\<close> fails with the invalid-property error, whatever
  the supports and loads are (before any computation), whenever the entry for
  \<open>length\<close>, \<open>E\<close> or \<open>I\<close> is present and is not a number.
\<close>

theorem invalid_property_raises:
  assumes "props ''length'' = Some PyNonNumeric \<or> props ''E'' = Some PyNonNumeric
      \<or> props ''I'' = Some PyNonNumeric"
  shows "solve_beam props supports loads = Inl (AnalysisError InvalidBeamProperty)"
proof -
  from assms have "read_properties props = Inl (AnalysisError InvalidBeamProperty)"
    by (auto simp: read_properties_def get_float_def split: option.splits pyval.splits)
  then show ?thesis
    by (simp add: solve_beam_def)
qed

theorem invalid_property_raises_witness:
  "(ex_props_bad_E ''length'' = Some PyNonNumeric \<or> ex_props_bad_E ''E'' = Some PyNonNumeric
      \<or> ex_props_bad_E ''I'' = Some PyNonNumeric)
   \<and> solve_beam ex_props_bad_E ex_ss ex_loads = Inl (AnalysisError InvalidBeamProperty)"
proof -
  have h: "ex_props_bad_E ''length'' = Some PyNonNumeric
      \<or> ex_props_bad_E ''E'' = Some PyNonNumeric \<or> ex_props_bad_E ''I'' = Some PyNonNumeric"
    by (simp add: ex_props_bad_E_def)
  from invalid_property_raises [OF h] h show ?thesis by simp
qed

subsection \<open>Missing properties and the absence of a positivity check\<close>

text \<open>
  Claim C10. A solve on a properties dict is the solve on that dict with every absent key
  among \<open>length\<close>, \<open>E\<close>, \<open>I\<close> filled with its default \<open>10\<close>, \<open>200e9\<close>, \<open>8.3e-5\<close>: the
  missing key raises nothing, and from the empty dict a full table of 2001 rows is computed
  (here for a cantilever fixed at \<open>0\<close>). No value is checked for positivity: whether the
  solve fails does not depend on the numbers given for \<open>E\<close> and \<open>I\<close>, and a negative
  length is accepted (length \<open>- 0.0075\<close> gives a cantilever an empty table).
\<close>

theorem missing_properties_default:
  "solve_beam props supports loads = solve_beam (default_properties ++ props) supports loads
   \<and> (\<exists>df. solve_beam Map.empty [fixed_at 0] loads = Inr (Finite df)
          \<and> n_rows (Finite df) = replicate 5 2001)
   \<and> isl (solve_beam (props(''E'' \<mapsto> PyNum e, ''I'' \<mapsto> PyNum i)) supports loads)
       = isl (solve_beam (props(''E'' \<mapsto> PyNum e', ''I'' \<mapsto> PyNum i')) supports loads)
   \<and> solve_beam [''length'' \<mapsto> PyNum (- (3 / 400))] [fixed_at 0] loads
       = Inr (Finite \<lparr>Position_m = [], Shear_Force_N = [], Bending_Moment_Nm = [],
            Slope_rad = [], Deflection_m = []\<rparr>)"
proof -
  have a: "solve_beam props supports loads
      = solve_beam (default_properties ++ props) supports loads"
    by (simp add: solve_beam_def read_properties_default)
  have b: "\<exists>df. solve_beam Map.empty [fixed_at 0] loads = Inr (Finite df)
      \<and> n_rows (Finite df) = replicate 5 2001"
    by (simp add: solve_beam_unfold [OF read_properties_empty make_grid_default]
        dispatch_cantilever boundary_cantilever n_rows_def replicate_5)
  have rp: "read_properties [''length'' \<mapsto> PyNum (- (3 / 400))]
      = Inr (- (3 / 400), 200000000000, 83 / 1000000)"
    by (simp add: read_properties_def get_float_def)
  have mg: "make_grid (- (3 / 400)) = Inr ([], 3 / 400)"
    by (simp add: make_grid_def num_points_of_def double_product_negative py_int_def
        linspace0_def)
  have d: "solve_beam [''length'' \<mapsto> PyNum (- (3 / 400))] [fixed_at 0] loads
       = Inr (Finite \<lparr>Position_m = [], Shear_Force_N = [], Bending_Moment_Nm = [],
            Slope_rad = [], Deflection_m = []\<rparr>)"
    by (simp add: solve_beam_unfold [OF rp mg] dispatch_cantilever boundary_cantilever
        shear_Nil moment_def slope_of_def deflection_raw_def cumsum_def vadd_def)
  from a b solve_beam_isl_stiffness d show ?thesis
    by blast
qed

subsection \<open>Linearity in the loads\<close>

text \<open>
  Claim C9, as stated, fails: on the example cantilever with two point loads, doubling the
  magnitude of the first load alone does not double the sampled values (the shear at the
  first sample goes from \<open>24\<close> to \<open>36\<close>).
\<close>

theorem doubling_one_load_counterexample:
  "solve_beam ex_props ex_cantilever ex_two_loads_doubled
     \<noteq> map_sum id (scale_table 2) (solve_beam ex_props ex_cantilever ex_two_loads)"
  by (simp add: ex_solve_two_loads ex_solve_two_loads_doubled scale_def)

text \<open>
  Claim C9, amended. Multiplying the magnitude of every load by one factor \<open>c\<close> (so also
  doubling the point load of a configuration that has no other load) multiplies every
  sampled shear, moment, slope and deflection value by \<open>c\<close> and leaves positions and
  errors as they are; and permuting the load list leaves the result unchanged.
\<close>

theorem loads_linear:
  "solve_beam props supports (map (scale_load c) loads)
     = map_sum id (scale_table c) (solve_beam props supports loads)
   \<and> (mset loads' = mset loads \<longrightarrow>
        solve_beam props supports loads' = solve_beam props supports loads)"
  using solve_beam_scale solve_beam_perm by blast

theorem loads_linear_witness:
  "mset (rev ex_two_loads) = mset ex_two_loads
   \<and> solve_beam ex_props ex_cantilever (rev ex_two_loads)
       = solve_beam ex_props ex_cantilever ex_two_loads
   \<and> solve_beam ex_props ex_cantilever (map (scale_load 2) ex_loads)
       = Inr (Finite \<lparr>Position_m = [0, 1 / 200, 1 / 100], Shear_Force_N = [24, 0, 0],
            Bending_Moment_Nm = [6 / 25, 6 / 25, 6 / 25],
            Slope_rad = [1 / 5000, 1 / 2500, 3 / 5000],
            Deflection_m = [1 / 1000000, 3 / 1000000, 3 / 500000]\<rparr>)"
  using loads_linear [of ex_props ex_cantilever 2 ex_loads]
    loads_linear [of ex_props ex_cantilever 2 ex_two_loads "rev ex_two_loads"]
  by (simp add: ex_solve_cantilever scale_def)

end
